theory Spec2Isabelle
  imports Main "HOL-Library.Word"
begin

section \<open>JavaScript values and objects\<close>

text \<open>
  The protected header of \<^verbatim>\<open>packages/jades/src/sign.ts\<close> is a plain JavaScript object
  (\<^verbatim>\<open>Partial<ProtectedHeader>\<close>, with the index signature \<^verbatim>\<open>[key: string]: unknown\<close>).
  Its values are JavaScript values; \<^verbatim>\<open>undefined\<close> is one of them, and a property that was
  assigned \<^verbatim>\<open>undefined\<close> is still a property of the object. Numbers are restricted to
  integers and strings to code points below 256. The value of a property is a tree: the
  descriptors, arrays and pairs that the setters put into the header are not written to
  by any method, and they are kept as values.
\<close>

datatype jsval =
    JUndefined
  | JNull
  | JBool bool
  | JNum int
  | JStr string
  | JArr "jsval list"
  | JObj "(string \<times> jsval) list"

text \<open>
  An object is the list of its own properties in enumeration order, which for the string
  keys used here is the order of creation. Keys are pairwise distinct.
\<close>

type_synonym object = "(string \<times> jsval) list"

definition wf_object :: "object \<Rightarrow> bool" where
  "wf_object obj = distinct (map fst obj)"

text \<open>\<^verbatim>\<open>key in obj\<close>: the object has the property, whatever its value.\<close>

definition has_prop :: "object \<Rightarrow> string \<Rightarrow> bool" where
  "has_prop obj k = (k \<in> set (map fst obj))"

text \<open>\<^verbatim>\<open>obj[key]\<close>: reading a missing property yields \<^verbatim>\<open>undefined\<close>.\<close>

definition get_prop :: "object \<Rightarrow> string \<Rightarrow> jsval" where
  "get_prop obj k = (case map_of obj k of None \<Rightarrow> JUndefined | Some v \<Rightarrow> v)"

text \<open>
  \<^verbatim>\<open>obj[key] = v\<close>: an existing property keeps its place and takes the new value, a new
  one is added at the end.
\<close>

fun set_prop :: "object \<Rightarrow> string \<Rightarrow> jsval \<Rightarrow> object" where
  "set_prop [] k v = [(k, v)]"
| "set_prop ((k', v') # ps) k v =
     (if k' = k then (k, v) # ps else (k', v') # set_prop ps k v)"

text \<open>\<^verbatim>\<open>delete obj[key]\<close>: the object without the property.\<close>

definition without_prop :: "object \<Rightarrow> string \<Rightarrow> object" where
  "without_prop obj k = filter (\<lambda>(k', v). k' \<noteq> k) obj"

text \<open>Truthiness, as tested by \<^verbatim>\<open>!x\<close>.\<close>

fun truthy :: "jsval \<Rightarrow> bool" where
  "truthy JUndefined = False"
| "truthy JNull = False"
| "truthy (JBool b) = b"
| "truthy (JNum n) = (n \<noteq> 0)"
| "truthy (JStr s) = (s \<noteq> [])"
| "truthy (JArr vs) = True"
| "truthy (JObj ps) = True"

subsection \<open>Rendering values as text\<close>

function dec_nat :: "nat \<Rightarrow> string" where
  "dec_nat n =
     (if n < 10 then [''0123456789'' ! n]
      else dec_nat (n div 10) @ [''0123456789'' ! (n mod 10)])"
  by pat_completeness auto
termination
  by (relation "measure id") auto

definition dec_int :: "int \<Rightarrow> string" where
  "dec_int i = (if i < 0 then ''-'' @ dec_nat (nat (- i)) else dec_nat (nat i))"

fun join :: "string \<Rightarrow> string list \<Rightarrow> string" where
  "join sep [] = []"
| "join sep [x] = x"
| "join sep (x # y # ys) = x @ sep @ join sep (y # ys)"

text \<open>
  The string conversion of a template literal \<^verbatim>\<open>`${v}`\<close>: an array joins its elements
  with commas, \<^verbatim>\<open>null\<close> and \<^verbatim>\<open>undefined\<close> elements giving the empty string.
\<close>

fun ToString :: "jsval \<Rightarrow> string" where
  "ToString JUndefined = ''undefined''"
| "ToString JNull = ''null''"
| "ToString (JBool b) = (if b then ''true'' else ''false'')"
| "ToString (JNum n) = dec_int n"
| "ToString (JStr s) = s"
| "ToString (JArr vs) =
     join '','' (map (\<lambda>v. if v = JUndefined \<or> v = JNull then [] else ToString v) vs)"
| "ToString (JObj ps) = ''[object Object]''"

subsection \<open>\<^verbatim>\<open>JSON.stringify\<close>\<close>

definition json_escape :: "char \<Rightarrow> string" where
  "json_escape c =
     (let n = (of_char c :: nat) in
      if n = 0x22 then [CHR 0x5C, CHR 0x22]
      else if n = 0x5C then [CHR 0x5C, CHR 0x5C]
      else if n = 8 then [CHR 0x5C, CHR ''b'']
      else if n = 9 then [CHR 0x5C, CHR ''t'']
      else if n = 10 then [CHR 0x5C, CHR ''n'']
      else if n = 12 then [CHR 0x5C, CHR ''f'']
      else if n = 13 then [CHR 0x5C, CHR ''r'']
      else if n < 32 then
        [CHR 0x5C, CHR ''u'', CHR ''0'', CHR ''0'',
         ''0123456789abcdef'' ! (n div 16), ''0123456789abcdef'' ! (n mod 16)]
      else [c])"

definition json_quote :: "string \<Rightarrow> string" where
  "json_quote s = [CHR 0x22] @ concat (map json_escape s) @ [CHR 0x22]"

text \<open>
  Serialisation of a value in element position. A property whose value is
  \<^verbatim>\<open>undefined\<close> is left out of an object; an \<^verbatim>\<open>undefined\<close> array element is
  written \<^verbatim>\<open>null\<close>.
\<close>

fun json_value :: "jsval \<Rightarrow> string" where
  "json_value JUndefined = ''null''"
| "json_value JNull = ''null''"
| "json_value (JBool b) = (if b then ''true'' else ''false'')"
| "json_value (JNum n) = dec_int n"
| "json_value (JStr s) = json_quote s"
| "json_value (JArr vs) = ''['' @ join '','' (map json_value vs) @ '']''"
| "json_value (JObj ps) =
     ''{'' @ join '',''
        (map (\<lambda>(k, v). json_quote k @ '':'' @ json_value v)
           (filter (\<lambda>(k, v). v \<noteq> JUndefined) ps)) @ ''}''"

text \<open>\<^verbatim>\<open>JSON.stringify(obj)\<close> for an object \<^verbatim>\<open>obj\<close>.\<close>

definition JSON_stringify :: "object \<Rightarrow> string" where
  "JSON_stringify obj = json_value (JObj obj)"

section \<open>Buffers and base64\<close>

type_synonym byte = "8 word"
type_synonym buffer = "byte list"

definition base64_alphabet :: string where
  "base64_alphabet =
     ''ABCDEFGHIJKLMNOPQRSTUVWXYZabcdefghijklmnopqrstuvwxyz0123456789+/''"

definition base64url_alphabet :: string where
  "base64url_alphabet =
     ''ABCDEFGHIJKLMNOPQRSTUVWXYZabcdefghijklmnopqrstuvwxyz0123456789-_''"

text \<open>
  RFC 4648 encoding of a byte sequence over a 64-character alphabet; \<open>pad\<close> says whether
  the last group is filled with \<^verbatim>\<open>=\<close>.
\<close>

fun base64_groups :: "string \<Rightarrow> bool \<Rightarrow> nat list \<Rightarrow> string" where
  "base64_groups al pad [] = []"
| "base64_groups al pad [a] =
     [al ! (a div 4), al ! ((a mod 4) * 16)] @ (if pad then ''=='' else [])"
| "base64_groups al pad [a, b] =
     [al ! (a div 4), al ! ((a mod 4) * 16 + b div 16), al ! ((b mod 16) * 4)]
       @ (if pad then ''='' else [])"
| "base64_groups al pad (a # b # c # rest) =
     [al ! (a div 4), al ! ((a mod 4) * 16 + b div 16),
      al ! ((b mod 16) * 4 + c div 64), al ! (c mod 64)]
       @ base64_groups al pad rest"

text \<open>\<^verbatim>\<open>buf.toString('base64')\<close> and \<^verbatim>\<open>buf.toString('base64url')\<close> of Node.\<close>

definition toString_base64 :: "buffer \<Rightarrow> string" where
  "toString_base64 buf = base64_groups base64_alphabet True (map unat buf)"

definition toString_base64url :: "buffer \<Rightarrow> string" where
  "toString_base64url buf = base64_groups base64url_alphabet False (map unat buf)"

text \<open>UTF-8 bytes of a string of code points below 256.\<close>

definition utf8 :: "string \<Rightarrow> buffer" where
  "utf8 s =
     concat (map (\<lambda>c. let n = (of_char c :: nat) in
                       if n < 128 then [of_nat n]
                       else [of_nat (192 + n div 64), of_nat (128 + n mod 64)]) s)"

text \<open>
  \<^verbatim>\<open>base64urlEncode\<close> of \<^verbatim>\<open>@sd-jwt/utils\<close>: the base64url text, without padding, of
  the UTF-8 bytes of a string.
\<close>

definition base64urlEncode :: "string \<Rightarrow> string" where
  "base64urlEncode s = toString_base64url (utf8 s)"

section \<open>Errors, completions and collaborators\<close>

text \<open>
  Every failure raised by the source is \<^verbatim>\<open>throw new Error(message)\<close>; the message tells
  the failures apart. A property read on \<^verbatim>\<open>undefined\<close> raises a \<^verbatim>\<open>TypeError\<close>.
\<close>

datatype error = Error string | TypeError string

text \<open>
  The failures of \<^verbatim>\<open>sign.ts\<close> under the names the specification gives them. The check
  of \<^verbatim>\<open>alg\<close> raises the same error in \<^verbatim>\<open>setProtectedHeader\<close> and in \<^verbatim>\<open>sign\<close>
  (\<open>InvalidAlgorithm\<close>, also called \<open>AlgorithmNotSet\<close>).
\<close>

definition InvalidAlgorithm :: error where
  "InvalidAlgorithm =
     Error (''alg must be set and not '' @ [CHR 0x22] @ ''none'' @ [CHR 0x22])"

definition InsufficientCertificates :: error where
  "InsufficientCertificates =
     Error ''at least 2 certificates are required, use setX5tSo instead''"

definition NotSignedYet :: error where
  "NotSignedYet = Error ''Not signed yet''"

definition UnsupportedAlgorithm :: "jsval \<Rightarrow> error" where
  "UnsupportedAlgorithm alg = Error (''Unsupported algorithm: '' @ ToString alg)"

text \<open>A call either returns a value or throws; the instance it leaves behind is given beside it.\<close>

datatype 'a completion = Return 'a | Throw error

text \<open>
  An \<^verbatim>\<open>async\<close> method does not throw: it returns a promise, and what its body
  returns or throws settles that promise. A promise is given here by its settlement.
\<close>

datatype 'a promise = Fulfilled 'a | Rejected error

text \<open>\<^verbatim>\<open>v.name\<close> and \<^verbatim>\<open>v[0]\<close> on an arbitrary value.\<close>

fun member :: "jsval \<Rightarrow> string \<Rightarrow> jsval completion" where
  "member JUndefined k = Throw (TypeError ''Cannot read properties of undefined'')"
| "member JNull k = Throw (TypeError ''Cannot read properties of null'')"
| "member (JObj ps) k = Return (get_prop ps k)"
| "member v k = Return JUndefined"

fun first_element :: "jsval \<Rightarrow> jsval completion" where
  "first_element JUndefined = Throw (TypeError ''Cannot read properties of undefined'')"
| "first_element JNull = Throw (TypeError ''Cannot read properties of null'')"
| "first_element (JArr []) = Return JUndefined"
| "first_element (JArr (v # vs)) = Return v"
| "first_element (JStr []) = Return JUndefined"
| "first_element (JStr (c # cs)) = Return (JStr [c])"
| "first_element (JObj ps) = Return (get_prop ps ''0'')"
| "first_element v = Return JUndefined"

datatype KeyObject = KeyObject string

record X509Certificate =
  raw :: buffer

type_synonym DisclosureFrame = jsval

text \<open>
  One use of Node's signing primitive,
  \<^verbatim>\<open>createSign(algorithm).update(data).sign({key, ...options})\<close>.
\<close>

record sign_request =
  algorithm :: jsval
  data :: string
  key :: KeyObject
  options :: object

record signature_entry =
  protected :: string
  signature :: string
  header :: "object option"

record GeneralJWS =
  jws_payload :: jsval
  signatures :: "signature_entry list"

text \<open>
  One call of the SD-JWT issuance engine:
  \<^verbatim>\<open>new SDJwtGeneralJSONInstance({hashAlg, signAlg, ...}).issue(payload, frame, {sigs: [{alg, kid, header, signer}]})\<close>.
\<close>

record issue_request =
  rq_hashAlg :: string
  rq_signAlg :: jsval
  rq_payload :: object
  rq_disclosureFrame :: "DisclosureFrame option"
  rq_alg :: jsval
  rq_kid :: string
  rq_header :: object

text \<open>What has been asked of the collaborators so far, oldest first.\<close>

datatype event = Signer_sign sign_request | Engine_issue issue_request

type_synonym trace = "event list"

text \<open>
  The collaborators, which the code consumes and does not implement: the catalogue
  \<^verbatim>\<open>ALGORITHMS\<close> of \<^verbatim>\<open>./constant\<close> (\<^verbatim>\<open>ALGORITHMS[alg]\<close>, \<^verbatim>\<open>undefined\<close> for a
  missing key), the signing primitive, which may throw and may depend on what happened
  before, the digest \<^verbatim>\<open>createHash(name).update(data).digest()\<close>, and the issuance
  engine (with \<^verbatim>\<open>toJson()\<close> applied to its result), which is handed the signer callback.
\<close>

record platform =
  ALGORITHMS :: "string \<Rightarrow> jsval"
  signer_sign :: "sign_request \<Rightarrow> trace \<Rightarrow> buffer completion"
  digest :: "string \<Rightarrow> buffer \<Rightarrow> buffer"
  sdjwt_issue :: "issue_request \<Rightarrow> (string \<Rightarrow> trace \<Rightarrow> string completion \<times> trace)
                    \<Rightarrow> trace \<Rightarrow> GeneralJWS completion \<times> trace"

section \<open>\<^verbatim>\<open>JWTSigner\<close>\<close>

text \<open>
  The three handlers read their parameters from the catalogue entry, hand one request
  to the primitive and return its signature as base64url text.
\<close>

definition run_signer :: "platform \<Rightarrow> sign_request \<Rightarrow> trace \<Rightarrow> string completion \<times> trace" where
  "run_signer P rq tr =
     (case signer_sign P rq tr of
        Throw e \<Rightarrow> (Throw e, tr @ [Signer_sign rq])
      | Return sg \<Rightarrow> (Return (toString_base64url sg), tr @ [Signer_sign rq]))"

definition createRSASignature ::
  "platform \<Rightarrow> string \<Rightarrow> KeyObject \<Rightarrow> jsval \<Rightarrow> trace \<Rightarrow> string completion \<times> trace" where
  "createRSASignature P signingInput privateKey opts tr =
     (case member opts ''hash'' of
        Throw e \<Rightarrow> (Throw e, tr)
      | Return hash \<Rightarrow>
          (case member opts ''padding'' of
             Throw e \<Rightarrow> (Throw e, tr)
           | Return padding \<Rightarrow>
               run_signer P
                 \<lparr>algorithm = hash, data = signingInput, key = privateKey,
                  options = [(''padding'', padding)]\<rparr> tr))"

definition createECDSASignature ::
  "platform \<Rightarrow> string \<Rightarrow> KeyObject \<Rightarrow> jsval \<Rightarrow> trace \<Rightarrow> string completion \<times> trace" where
  "createECDSASignature P signingInput privateKey opts tr =
     (case member opts ''hash'' of
        Throw e \<Rightarrow> (Throw e, tr)
      | Return hash \<Rightarrow>
          run_signer P
            \<lparr>algorithm = hash, data = signingInput, key = privateKey,
             options = [(''dsaEncoding'', JStr ''ieee-p1363'')]\<rparr> tr)"

definition createEdDSASignature ::
  "platform \<Rightarrow> string \<Rightarrow> KeyObject \<Rightarrow> jsval \<Rightarrow> trace \<Rightarrow> string completion \<times> trace" where
  "createEdDSASignature P signingInput privateKey opts tr =
     (case member opts ''curves'' of
        Throw e \<Rightarrow> (Throw e, tr)
      | Return curves \<Rightarrow>
          (case first_element curves of
             Throw e \<Rightarrow> (Throw e, tr)
           | Return curve \<Rightarrow>
               run_signer P
                 \<lparr>algorithm = curve, data = signingInput, key = privateKey,
                  options = []\<rparr> tr))"

definition RSA_algs :: "string list" where
  "RSA_algs = [''RS256'', ''RS384'', ''RS512'', ''PS256'', ''PS384'', ''PS512'']"

definition ECDSA_algs :: "string list" where
  "ECDSA_algs = [''ES256'', ''ES384'', ''ES512'']"

text \<open>The ten case labels of the \<^verbatim>\<open>switch\<close>.\<close>

definition supported_algs :: "string list" where
  "supported_algs = RSA_algs @ ECDSA_algs @ [''EdDSA'']"

text \<open>
  The \<^verbatim>\<open>switch\<close> compares with \<^verbatim>\<open>===\<close>, so a value that is not a string matches no
  case; what matches no case reaches the \<^verbatim>\<open>throw\<close> after the \<^verbatim>\<open>switch\<close>.
\<close>

definition JWTSigner_createSignature ::
  "platform \<Rightarrow> jsval \<Rightarrow> string \<Rightarrow> KeyObject \<Rightarrow> trace \<Rightarrow> string completion \<times> trace" where
  "JWTSigner_createSignature P alg signingInput privateKey tr =
     (case alg of
        JStr a \<Rightarrow>
          (if a \<in> set RSA_algs then
             createRSASignature P signingInput privateKey (ALGORITHMS P a) tr
           else if a \<in> set ECDSA_algs then
             createECDSASignature P signingInput privateKey (ALGORITHMS P a) tr
           else if a = ''EdDSA'' then
             createEdDSASignature P signingInput privateKey (ALGORITHMS P a) tr
           else (Throw (UnsupportedAlgorithm alg), tr))
      | _ \<Rightarrow> (Throw (UnsupportedAlgorithm alg), tr))"

definition JWTSigner_sign ::
  "platform \<Rightarrow> jsval \<Rightarrow> string \<Rightarrow> KeyObject \<Rightarrow> trace \<Rightarrow> string completion \<times> trace" where
  "JWTSigner_sign P alg signingInput privateKey tr =
     JWTSigner_createSignature P alg signingInput privateKey tr"

section \<open>The class \<^verbatim>\<open>Sign\<close>\<close>

text \<open>
  The field \<^verbatim>\<open>protectedHeader\<close> holds a reference to an object, not a copy of it:
  \<^verbatim>\<open>setProtectedHeader\<close> stores the object it is given, and the other setters write
  into whatever object the field refers to. So the objects live in a heap, and the
  instance holds a reference into it. \<^verbatim>\<open>payload\<close> and \<^verbatim>\<open>serialized\<close> are
  \<^verbatim>\<open>undefined\<close> when they are \<open>None\<close>.
\<close>

type_synonym ref = nat

record Sign =
  payload :: "object option"
  serialized :: "GeneralJWS option"
  protectedHeader :: ref
  disclosureFrame :: "DisclosureFrame option"

text \<open>
  A state is the instance together with the heap. A synchronous method is a function
  from the state before the call to the completion of the call and the state after it; a
  method that cannot throw returns the state alone. The fluent methods return
  \<^verbatim>\<open>this\<close>, which is the instance of that state.
\<close>

record state =
  inst :: Sign
  heap :: "ref \<Rightarrow> object"

text \<open>The object \<^verbatim>\<open>this.protectedHeader\<close> refers to, and \<^verbatim>\<open>this.protectedHeader[k] = v\<close>.\<close>

definition current_header :: "state \<Rightarrow> object" where
  "current_header st = heap st (protectedHeader (inst st))"

definition write_header :: "string \<Rightarrow> jsval \<Rightarrow> state \<Rightarrow> state" where
  "write_header k v st =
     st\<lparr>heap := (heap st)(protectedHeader (inst st) := set_prop (current_header st) k v)\<rparr>"

text \<open>
  \<^verbatim>\<open>new Sign(payload)\<close>, in a heap \<open>H\<close> that holds the caller's objects. The
  constructor's new object \<^verbatim>\<open>{}\<close> is put at reference 0, which no object of the caller
  has.
\<close>

definition new_Sign :: "object option \<Rightarrow> (ref \<Rightarrow> object) \<Rightarrow> state" where
  "new_Sign p H =
     \<lparr>inst = \<lparr>payload = p, serialized = None, protectedHeader = 0, disclosureFrame = None\<rparr>,
      heap = H(0 := [])\<rparr>"

subsection \<open>Header setters\<close>

text \<open>The argument of \<^verbatim>\<open>setProtectedHeader\<close> is the reference to the caller's object.\<close>

definition setProtectedHeader :: "ref \<Rightarrow> state \<Rightarrow> unit completion \<times> state" where
  "setProtectedHeader hdr st =
     (if \<not> truthy (get_prop (heap st hdr) ''alg'') \<or>
         get_prop (heap st hdr) ''alg'' = JStr ''none''
      then (Throw InvalidAlgorithm, st)
      else (Return (), st\<lparr>inst := (inst st)\<lparr>protectedHeader := hdr\<rparr>\<rparr>))"

definition setDisclosureFrame :: "DisclosureFrame \<Rightarrow> state \<Rightarrow> state" where
  "setDisclosureFrame frame st = st\<lparr>inst := (inst st)\<lparr>disclosureFrame := Some frame\<rparr>\<rparr>"

definition setB64 :: "bool \<Rightarrow> state \<Rightarrow> state" where
  "setB64 b64 st =
     (if b64 then write_header ''b64'' JUndefined st
      else write_header ''b64'' (JBool False) st)"

text \<open>
  \<^verbatim>\<open>sec ?? Math.floor(Date.now() / 1000)\<close>: \<open>now\<close> is what \<^verbatim>\<open>Date.now()\<close> returns at
  the call, in milliseconds.
\<close>

definition setIssuedAt :: "int option \<Rightarrow> int \<Rightarrow> state \<Rightarrow> state" where
  "setIssuedAt sec now st =
     write_header ''iat'' (JNum (case sec of Some n \<Rightarrow> n | None \<Rightarrow> now div 1000)) st"

definition setSignedAt :: "int option \<Rightarrow> int \<Rightarrow> state \<Rightarrow> state" where
  "setSignedAt sec now st =
     write_header ''signedAt'' (JNum (case sec of Some n \<Rightarrow> n | None \<Rightarrow> now div 1000)) st"

definition HttpHeaders :: string where
  "HttpHeaders = ''http://uri.etsi.org/19182/HttpHeaders''"

definition setSigD :: "object \<Rightarrow> state \<Rightarrow> state" where
  "setSigD sigd st =
     (let st1 = write_header ''sigD'' (JObj sigd) st
      in if get_prop sigd ''mId'' = JStr HttpHeaders then setB64 False st1 else st1)"

text \<open>
  The descriptor is handed over as a value, an object of its own that no method writes
  into; a call that hands a header object as the descriptor is not described. A
  descriptor of type \<^verbatim>\<open>SigD\<close> is written as the literal \<^verbatim>\<open>{mId, pars, hash}\<close>.
\<close>

definition SigD :: "string \<Rightarrow> string \<times> string \<Rightarrow> string \<Rightarrow> object" where
  "SigD m ps h =
     [(''mId'', JStr m), (''pars'', JArr [JStr (fst ps), JStr (snd ps)]), (''hash'', JStr h)]"

definition setJti :: "string \<Rightarrow> state \<Rightarrow> state" where
  "setJti jti st = write_header ''jti'' (JStr jti) st"

definition setX5u :: "string \<Rightarrow> state \<Rightarrow> state" where
  "setX5u uri st = write_header ''x5u'' (JStr uri) st"

definition setX5c :: "X509Certificate list \<Rightarrow> state \<Rightarrow> state" where
  "setX5c certs st =
     write_header ''x5c'' (JArr (map (\<lambda>cert. JStr (toString_base64 (raw cert))) certs)) st"

definition setX5tS256 :: "platform \<Rightarrow> X509Certificate \<Rightarrow> state \<Rightarrow> state" where
  "setX5tS256 P cert st =
     write_header ''x5t#256'' (JStr (toString_base64url (digest P ''sha-256'' (raw cert)))) st"

text \<open>The pair \<^verbatim>\<open>{digAlg: 'sha-512', digVal: ...}\<close> built by \<^verbatim>\<open>setX5tSo\<close> and \<^verbatim>\<open>setX5ts\<close>.\<close>

definition sha512_pair :: "platform \<Rightarrow> X509Certificate \<Rightarrow> jsval" where
  "sha512_pair P cert =
     JObj [(''digAlg'', JStr ''sha-512''),
           (''digVal'', JStr (toString_base64url (digest P ''sha-512'' (raw cert))))]"

definition setX5tSo :: "platform \<Rightarrow> X509Certificate \<Rightarrow> state \<Rightarrow> state" where
  "setX5tSo P cert st = write_header ''x5t#o'' (sha512_pair P cert) st"

definition setX5ts :: "platform \<Rightarrow> X509Certificate list \<Rightarrow> state \<Rightarrow> unit completion \<times> state" where
  "setX5ts P certs st =
     (if length certs < 2 then (Throw InsufficientCertificates, st)
      else (Return (), write_header ''x5t#s'' (JArr (map (sha512_pair P) certs)) st))"

definition setCty :: "string \<Rightarrow> state \<Rightarrow> state" where
  "setCty cty st = write_header ''cty'' (JStr cty) st"

definition setKid :: "string \<Rightarrow> state \<Rightarrow> state" where
  "setKid kid st = write_header ''kid'' (JStr kid) st"

definition toJSON :: "state \<Rightarrow> GeneralJWS completion \<times> state" where
  "toJSON st =
     (case serialized (inst st) of
        None \<Rightarrow> (Throw NotSignedYet, st)
      | Some jws \<Rightarrow> (Return jws, st))"

subsection \<open>\<^verbatim>\<open>sign\<close> in \<^verbatim>\<open>packages/jades/src/sign.ts\<close>\<close>

text \<open>
  The method is \<^verbatim>\<open>async\<close>: it returns a promise, which a \<^verbatim>\<open>throw\<close> in its body
  rejects. Its body has no \<^verbatim>\<open>await\<close>. The branch for an instance that is already
  serialized and the branch for a present payload are empty in this file, and
  \<^verbatim>\<open>serialized\<close> is declared \<^verbatim>\<open>readonly\<close> and never assigned.
\<close>

definition sign :: "platform \<Rightarrow> KeyObject \<Rightarrow> state \<Rightarrow> trace \<Rightarrow> unit promise \<times> state \<times> trace" where
  "sign P k st tr =
     (let alg = get_prop (current_header st) ''alg'' in
      if \<not> truthy alg \<or> alg = JStr ''none'' then (Rejected InvalidAlgorithm, st, tr)
      else if payload (inst st) = None then
        (let encodedProtectedHeader = base64urlEncode (JSON_stringify (current_header st));
             encodedPayload = [];
             protectedData = encodedProtectedHeader @ ''.'' @ encodedPayload
         in case JWTSigner_sign P alg protectedData k tr of
              (Throw e, tr') \<Rightarrow> (Rejected e, st, tr')
            | (Return sg, tr') \<Rightarrow> (Fulfilled (), st, tr'))
      else (Fulfilled (), st, tr))"

subsection \<open>\<^verbatim>\<open>sign\<close> with a key id, in \<^verbatim>\<open>examples/sd-jwt-vcdm-example/src/app.service.ts\<close>\<close>

text \<open>
  This file holds a second version of the class, in which \<^verbatim>\<open>sign(key, kid)\<close> stores the
  General JWS. Its setters and \<^verbatim>\<open>toJSON\<close> are those above, without \<^verbatim>\<open>setKid\<close>.
  \<^verbatim>\<open>{...this.protectedHeader, kid}\<close> is a new object, with the properties of the header
  and then \<^verbatim>\<open>kid\<close> assigned; the header itself is not written to. The three methods
  are \<^verbatim>\<open>async\<close>; the promise of \<^verbatim>\<open>createSignature\<close> is settled once the engine has
  settled its own.
\<close>

definition appendSignature ::
  "platform \<Rightarrow> KeyObject \<Rightarrow> string \<Rightarrow> state \<Rightarrow> trace \<Rightarrow> unit promise \<times> state \<times> trace" where
  "appendSignature P k kid st tr = (Fulfilled (), st, tr)"

definition createSignature ::
  "platform \<Rightarrow> KeyObject \<Rightarrow> string \<Rightarrow> state \<Rightarrow> trace \<Rightarrow> unit promise \<times> state \<times> trace" where
  "createSignature P k kid st tr =
     (let alg = get_prop (current_header st) ''alg'' in
      if \<not> truthy alg \<or> alg = JStr ''none'' then (Rejected InvalidAlgorithm, st, tr)
      else
        (case payload (inst st) of
           None \<Rightarrow>
             (let encodedProtectedHeader =
                    base64urlEncode
                      (JSON_stringify (set_prop (current_header st) ''kid'' (JStr kid)));
                  encodedPayload = [];
                  protectedData = encodedProtectedHeader @ ''.'' @ encodedPayload
              in case JWTSigner_sign P alg protectedData k tr of
                   (Throw e, tr') \<Rightarrow> (Rejected e, st, tr')
                 | (Return sg, tr') \<Rightarrow>
                     (Fulfilled (),
                      st\<lparr>inst := (inst st)\<lparr>serialized :=
                           Some \<lparr>jws_payload = JStr [],
                                 signatures =
                                   [\<lparr>protected = encodedProtectedHeader, signature = sg,
                                     header = None\<rparr>]\<rparr>\<rparr>\<rparr>,
                      tr'))
         | Some pl \<Rightarrow>
             (let rq = \<lparr>rq_hashAlg = ''sha-256'', rq_signAlg = alg, rq_payload = pl,
                        rq_disclosureFrame = disclosureFrame (inst st), rq_alg = alg,
                        rq_kid = kid, rq_header = current_header st\<rparr>;
                  signer = (\<lambda>d t.
                     if \<not> truthy (get_prop (current_header st) ''alg'')
                     then (Throw (Error ''alg must be set when signing''), t)
                     else JWTSigner_sign P (get_prop (current_header st) ''alg'') d k t)
              in case sdjwt_issue P rq signer (tr @ [Engine_issue rq]) of
                   (Throw e, tr') \<Rightarrow> (Rejected e, st, tr')
                 | (Return generalJSON, tr') \<Rightarrow>
                     (Fulfilled (),
                      st\<lparr>inst := (inst st)\<lparr>serialized := Some generalJSON\<rparr>\<rparr>, tr'))))"

definition sign_kid ::
  "platform \<Rightarrow> KeyObject \<Rightarrow> string \<Rightarrow> state \<Rightarrow> trace \<Rightarrow> unit promise \<times> state \<times> trace" where
  "sign_kid P k kid st tr =
     (let alg = get_prop (current_header st) ''alg'' in
      if \<not> truthy alg \<or> alg = JStr ''none'' then (Rejected InvalidAlgorithm, st, tr)
      else if serialized (inst st) \<noteq> None then appendSignature P k kid st tr
      else createSignature P k kid st tr)"

section \<open>Sequences of calls on one instance\<close>

datatype call =
    Call_setProtectedHeader ref
  | Call_setDisclosureFrame DisclosureFrame
  | Call_setB64 bool
  | Call_setIssuedAt "int option" int
  | Call_setSignedAt "int option" int
  | Call_setSigD object
  | Call_setJti string
  | Call_setX5u string
  | Call_setX5c "X509Certificate list"
  | Call_setX5tS256 X509Certificate
  | Call_setX5tSo X509Certificate
  | Call_setX5ts "X509Certificate list"
  | Call_setCty string
  | Call_setKid string
  | Call_toJSON
  | Call_sign KeyObject
  | Call_sign_kid KeyObject string

text \<open>
  What a call expression gives its caller: the completion of a synchronous method, or
  the promise of an \<^verbatim>\<open>async\<close> one.
\<close>

datatype outcome = Sync "unit completion" | Async "unit promise"

fun perform :: "platform \<Rightarrow> call \<Rightarrow> state \<Rightarrow> trace \<Rightarrow> outcome \<times> state \<times> trace" where
  "perform P (Call_setProtectedHeader hdr) st tr =
     (case setProtectedHeader hdr st of (r, st') \<Rightarrow> (Sync r, st', tr))"
| "perform P (Call_setDisclosureFrame frame) st tr =
     (Sync (Return ()), setDisclosureFrame frame st, tr)"
| "perform P (Call_setB64 b64) st tr = (Sync (Return ()), setB64 b64 st, tr)"
| "perform P (Call_setIssuedAt sec now) st tr = (Sync (Return ()), setIssuedAt sec now st, tr)"
| "perform P (Call_setSignedAt sec now) st tr = (Sync (Return ()), setSignedAt sec now st, tr)"
| "perform P (Call_setSigD sigd) st tr = (Sync (Return ()), setSigD sigd st, tr)"
| "perform P (Call_setJti jti) st tr = (Sync (Return ()), setJti jti st, tr)"
| "perform P (Call_setX5u uri) st tr = (Sync (Return ()), setX5u uri st, tr)"
| "perform P (Call_setX5c certs) st tr = (Sync (Return ()), setX5c certs st, tr)"
| "perform P (Call_setX5tS256 cert) st tr = (Sync (Return ()), setX5tS256 P cert st, tr)"
| "perform P (Call_setX5tSo cert) st tr = (Sync (Return ()), setX5tSo P cert st, tr)"
| "perform P (Call_setX5ts certs) st tr =
     (case setX5ts P certs st of (r, st') \<Rightarrow> (Sync r, st', tr))"
| "perform P (Call_setCty cty) st tr = (Sync (Return ()), setCty cty st, tr)"
| "perform P (Call_setKid kid) st tr = (Sync (Return ()), setKid kid st, tr)"
| "perform P Call_toJSON st tr =
     (case toJSON st of
        (Throw e, st') \<Rightarrow> (Sync (Throw e), st', tr)
      | (Return jws, st') \<Rightarrow> (Sync (Return ()), st', tr))"
| "perform P (Call_sign k) st tr =
     (case sign P k st tr of (p, st', tr') \<Rightarrow> (Async p, st', tr'))"
| "perform P (Call_sign_kid k kid) st tr =
     (case sign_kid P k kid st tr of (p, st', tr') \<Rightarrow> (Async p, st', tr'))"

fun is_sign :: "call \<Rightarrow> bool" where
  "is_sign (Call_sign k) = True"
| "is_sign (Call_sign_kid k kid) = True"
| "is_sign c = False"

text \<open>
  A caller makes the calls one after the other, awaits each promise, and goes on after a
  call that throws or a promise that is rejected. The flag says whether a call of
  \<^verbatim>\<open>sign\<close> has completed successfully so far.
\<close>

fun run :: "platform \<Rightarrow> call list \<Rightarrow> state \<times> trace \<times> bool \<Rightarrow> state \<times> trace \<times> bool" where
  "run P [] x = x"
| "run P (c # cs) (st, tr, was_signed) =
     (case perform P c st tr of
        (r, st', tr') \<Rightarrow>
          run P cs (st', tr', was_signed \<or> (is_sign c \<and> r = Async (Fulfilled ()))))"



section \<open>The catalogue, and a platform to run the definitions on\<close>

text \<open>
  The type of \<^verbatim>\<open>ALGORITHMS\<close> (\<^verbatim>\<open>./constant\<close> is not among the sources) as the
  code relies on it: \<^verbatim>\<open>Alg = keyof typeof ALGORITHMS\<close> and the parameter types of the
  three handlers require each of the ten identifiers of the \<^verbatim>\<open>switch\<close> to be a key
  whose entry is an object, with an array \<^verbatim>\<open>curves\<close> for \<^verbatim>\<open>EdDSA\<close>.
\<close>

fun is_object :: "jsval \<Rightarrow> bool" where
  "is_object (JObj ps) = True"
| "is_object v = False"

fun has_array :: "jsval \<Rightarrow> string \<Rightarrow> bool" where
  "has_array (JObj ps) k = (case get_prop ps k of JArr vs \<Rightarrow> True | _ \<Rightarrow> False)"
| "has_array v k = False"

definition catalog_typed :: "platform \<Rightarrow> bool" where
  "catalog_typed P =
     (list_all (\<lambda>a. is_object (ALGORITHMS P a)) (RSA_algs @ ECDSA_algs) \<and>
      has_array (ALGORITHMS P ''EdDSA'') ''curves'')"

text \<open>
  Modelled from the spec: an instance of the catalogue \<^verbatim>\<open>ALGORITHMS\<close>, whose file
  \<^verbatim>\<open>./constant\<close> is not among the sources. The specification's dispatch table lists
  its ten identifiers, with a digest and a padding mode for the RSA family, a digest and
  a curve for ECDSA, and the curves for EdDSA. The digests and curves are written with
  Node's names, the padding modes with Node's constants (1 for PKCS1 v1.5, 6 for PSS).
\<close>

definition example_ALGORITHMS :: "string \<Rightarrow> jsval" where
  "example_ALGORITHMS a =
     (if a = ''RS256'' then JObj [(''hash'', JStr ''sha256''), (''padding'', JNum 1)]
      else if a = ''RS384'' then JObj [(''hash'', JStr ''sha384''), (''padding'', JNum 1)]
      else if a = ''RS512'' then JObj [(''hash'', JStr ''sha512''), (''padding'', JNum 1)]
      else if a = ''PS256'' then JObj [(''hash'', JStr ''sha256''), (''padding'', JNum 6)]
      else if a = ''PS384'' then JObj [(''hash'', JStr ''sha384''), (''padding'', JNum 6)]
      else if a = ''PS512'' then JObj [(''hash'', JStr ''sha512''), (''padding'', JNum 6)]
      else if a = ''ES256'' then JObj [(''hash'', JStr ''sha256''), (''namedCurve'', JStr ''P-256'')]
      else if a = ''ES384'' then JObj [(''hash'', JStr ''sha384''), (''namedCurve'', JStr ''P-384'')]
      else if a = ''ES512'' then JObj [(''hash'', JStr ''sha512''), (''namedCurve'', JStr ''P-521'')]
      else if a = ''EdDSA'' then JObj [(''curves'', JArr [JStr ''ed25519'', JStr ''ed448''])]
      else JUndefined)"

text \<open>
  Stand-ins for the other collaborators: a primitive that returns three fixed bytes, a
  digest that returns its input, and an engine that asks the signer for one signature
  and returns the payload with it.
\<close>

definition example_platform :: platform where
  "example_platform =
     \<lparr>ALGORITHMS = example_ALGORITHMS,
      signer_sign = (\<lambda>rq tr. Return [0x01, 0x02, 0x03]),
      digest = (\<lambda>name buf. buf),
      sdjwt_issue = (\<lambda>rq signer tr.
         case signer ''issued'' tr of
           (Throw e, tr') \<Rightarrow> (Throw e, tr')
         | (Return sg, tr') \<Rightarrow>
             (Return \<lparr>jws_payload = JObj (rq_payload rq),
                      signatures = [\<lparr>protected = [], signature = sg, header = None\<rparr>]\<rparr>,
              tr'))\<rparr>"

text \<open>
  Heaps of a caller: no object yet, and the objects \<^verbatim>\<open>{alg: 'ES256'}\<close>,
  \<^verbatim>\<open>{alg: 'none'}\<close> and \<^verbatim>\<open>{alg: 'HS256'}\<close> at the references 2, 3 and 4.
\<close>

definition no_objects :: "ref \<Rightarrow> object" where
  "no_objects r = []"

definition example_heap :: "ref \<Rightarrow> object" where
  "example_heap r =
     (if r = 2 then [(''alg'', JStr ''ES256'')]
      else if r = 3 then [(''alg'', JStr ''none'')]
      else if r = 4 then [(''alg'', JStr ''HS256'')]
      else [])"

section \<open>Properties of objects and encodings\<close>

lemma map_of_set_prop: "map_of (set_prop obj k v) = (map_of obj)(k \<mapsto> v)"
  by (induction obj k v rule: set_prop.induct) auto

lemma get_prop_set_prop:
  "get_prop (set_prop obj k v) k' = (if k' = k then v else get_prop obj k')"
  by (simp add: get_prop_def map_of_set_prop)

lemma has_prop_set_prop: "has_prop (set_prop obj k v) k' = (k' = k \<or> has_prop obj k')"
  by (induction obj k v rule: set_prop.induct) (auto simp: has_prop_def)

lemma without_prop_absent: "\<not> has_prop obj k \<Longrightarrow> without_prop obj k = obj"
  by (induction obj) (auto simp: has_prop_def without_prop_def)

text \<open>
  Assigning \<^verbatim>\<open>undefined\<close> to a property and deleting the property leave the same
  properties with a defined value, in the same order.
\<close>

lemma defined_props_set_undefined:
  "wf_object obj \<Longrightarrow>
   filter (\<lambda>(k', v). v \<noteq> JUndefined) (set_prop obj k JUndefined) =
   filter (\<lambda>(k', v). v \<noteq> JUndefined) (without_prop obj k)"
proof (induction obj)
  case Nil
  then show ?case by (simp add: without_prop_def)
next
  case (Cons p ps)
  obtain k' v' where p: "p = (k', v')" by (cases p)
  from Cons.prems have wf: "wf_object ps" and fresh: "\<not> has_prop ps k'"
    by (simp_all add: wf_object_def has_prop_def p)
  show ?case
  proof (cases "k' = k")
    case True
    with fresh have "without_prop ps k = ps" by (simp add: without_prop_absent)
    with True show ?thesis by (simp add: p without_prop_def)
  next
    case False
    with Cons.IH [OF wf] show ?thesis by (simp add: p without_prop_def)
  qed
qed

lemma JSON_stringify_set_undefined:
  "wf_object obj \<Longrightarrow>
   JSON_stringify (set_prop obj k JUndefined) = JSON_stringify (without_prop obj k)"
  by (simp add: JSON_stringify_def defined_props_set_undefined)

subsection \<open>base64url has no padding\<close>

lemma base64url_alphabet_length: "length base64url_alphabet = 64"
  by (simp add: base64url_alphabet_def)

lemma base64url_alphabet_no_pad: "CHR ''='' \<notin> set base64url_alphabet"
  by (simp add: base64url_alphabet_def)

lemma base64url_alphabet_nth: "i < 64 \<Longrightarrow> CHR ''='' \<noteq> base64url_alphabet ! i"
proof
  assume "i < 64" and eq: "CHR ''='' = base64url_alphabet ! i"
  then have "base64url_alphabet ! i \<in> set base64url_alphabet"
    by (simp add: base64url_alphabet_length)
  with eq base64url_alphabet_no_pad show False by simp
qed

lemma sextet_bounds:
  fixes a b :: nat
  shows "a < 256 \<Longrightarrow> a div 4 < 64"
    and "(a mod 4) * 16 < 64"
    and "b < 256 \<Longrightarrow> (a mod 4) * 16 + b div 16 < 64"
    and "(a mod 16) * 4 < 64"
    and "b < 256 \<Longrightarrow> (a mod 16) * 4 + b div 64 < 64"
    and "a mod 64 < 64"
  by auto

lemma base64_groups_no_pad:
  "\<forall>x \<in> set xs. x < 256 \<Longrightarrow> CHR ''='' \<notin> set (base64_groups base64url_alphabet False xs)"
proof (induction base64url_alphabet False xs rule: base64_groups.induct)
  case 1
  then show ?case by simp
next
  case (2 a)
  then show ?case by (simp add: base64url_alphabet_nth sextet_bounds)
next
  case (3 a b)
  then show ?case by (simp add: base64url_alphabet_nth sextet_bounds)
next
  case (4 a b c rest)
  then show ?case by (simp add: base64url_alphabet_nth sextet_bounds)
qed

lemma byte_less_256: "unat (w :: byte) < 256"
  using unsigned_less [of w] by simp

lemma toString_base64url_no_pad: "CHR ''='' \<notin> set (toString_base64url buf)"
proof -
  have "\<forall>x \<in> set (map unat buf). x < 256"
    by (auto simp: byte_less_256)
  then show ?thesis
    unfolding toString_base64url_def by (rule base64_groups_no_pad)
qed

lemma base64_groups_length:
  "length (base64_groups al False xs) = (4 * length xs + 2) div 3"
  by (induction al False xs rule: base64_groups.induct) auto

lemma toString_base64url_length:
  "length (toString_base64url buf) = (4 * length buf + 2) div 3"
  by (simp add: toString_base64url_def base64_groups_length)

section \<open>Properties of \<^verbatim>\<open>JWTSigner\<close>\<close>


lemma run_signer_result:
  "run_signer P rq tr =
     (case signer_sign P rq tr of
        Throw e \<Rightarrow> Throw e
      | Return sg \<Rightarrow> Return (toString_base64url sg),
      tr @ [Signer_sign rq])"
  by (simp add: run_signer_def split: completion.splits)

lemma algs_disjoint:
  "set RSA_algs \<inter> set ECDSA_algs = {}"
  "''EdDSA'' \<notin> set RSA_algs"
  "''EdDSA'' \<notin> set ECDSA_algs"
  by (auto simp: RSA_algs_def ECDSA_algs_def)

lemma is_object_iff: "is_object v \<longleftrightarrow> (\<exists>ps. v = JObj ps)"
  by (cases v) simp_all

lemma catalog_typed_RSA:
  "catalog_typed P \<Longrightarrow> a \<in> set RSA_algs \<Longrightarrow> \<exists>opts. ALGORITHMS P a = JObj opts"
  by (simp add: catalog_typed_def list_all_iff is_object_iff)

lemma catalog_typed_ECDSA:
  "catalog_typed P \<Longrightarrow> a \<in> set ECDSA_algs \<Longrightarrow> \<exists>opts. ALGORITHMS P a = JObj opts"
  by (simp add: catalog_typed_def list_all_iff is_object_iff)

lemma catalog_typed_EdDSA:
  "catalog_typed P \<Longrightarrow>
   \<exists>opts cs. ALGORITHMS P ''EdDSA'' = JObj opts \<and> get_prop opts ''curves'' = JArr cs"
  by (cases "ALGORITHMS P ''EdDSA''") (auto simp: catalog_typed_def split: jsval.splits)

lemma catalog_typed_defined:
  assumes "catalog_typed P" and "ALGORITHMS P a = JUndefined"
  shows "a \<notin> set RSA_algs" "a \<notin> set ECDSA_algs" "a \<noteq> ''EdDSA''"
  using assms catalog_typed_RSA [of P a] catalog_typed_ECDSA [of P a] catalog_typed_EdDSA [of P]
  by auto

lemma catalog_typed_example: "catalog_typed example_platform"
  by (simp add: catalog_typed_def example_platform_def example_ALGORITHMS_def
      RSA_algs_def ECDSA_algs_def get_prop_def)

lemma createRSASignature_object:
  "createRSASignature P inp k (JObj opts) tr =
     run_signer P \<lparr>algorithm = get_prop opts ''hash'', data = inp, key = k,
                    options = [(''padding'', get_prop opts ''padding'')]\<rparr> tr"
  by (simp add: createRSASignature_def)

lemma createECDSASignature_object:
  "createECDSASignature P inp k (JObj opts) tr =
     run_signer P \<lparr>algorithm = get_prop opts ''hash'', data = inp, key = k,
                    options = [(''dsaEncoding'', JStr ''ieee-p1363'')]\<rparr> tr"
  by (simp add: createECDSASignature_def)

lemma createEdDSASignature_object:
  "get_prop opts ''curves'' = JArr cs \<Longrightarrow>
   createEdDSASignature P inp k (JObj opts) tr =
     run_signer P \<lparr>algorithm = (case cs of [] \<Rightarrow> JUndefined | c # _ \<Rightarrow> c), data = inp,
                    key = k, options = []\<rparr> tr"
  by (cases cs) (simp_all add: createEdDSASignature_def)

text \<open>
  A handler either throws before it reaches the primitive, or hands it exactly one
  request, for the signing input and the key it was given.
\<close>

lemma createRSASignature_one_request:
  "(\<exists>e. createRSASignature P inp k opts tr = (Throw e, tr)) \<or>
   (\<exists>rq. data rq = inp \<and> key rq = k \<and> createRSASignature P inp k opts tr = run_signer P rq tr)"
  by (auto simp: createRSASignature_def split: completion.splits)
    (metis sign_request.select_convs(2,3))

lemma createECDSASignature_one_request:
  "(\<exists>e. createECDSASignature P inp k opts tr = (Throw e, tr)) \<or>
   (\<exists>rq. data rq = inp \<and> key rq = k \<and> createECDSASignature P inp k opts tr = run_signer P rq tr)"
  by (auto simp: createECDSASignature_def split: completion.splits)
    (metis sign_request.select_convs(2,3))

lemma createEdDSASignature_one_request:
  "(\<exists>e. createEdDSASignature P inp k opts tr = (Throw e, tr)) \<or>
   (\<exists>rq. data rq = inp \<and> key rq = k \<and> createEdDSASignature P inp k opts tr = run_signer P rq tr)"
  by (auto simp: createEdDSASignature_def split: completion.splits)
    (metis sign_request.select_convs(2,3))

lemma JWTSigner_sign_one_request:
  "(\<exists>e. JWTSigner_sign P alg inp k tr = (Throw e, tr)) \<or>
   (\<exists>rq. data rq = inp \<and> key rq = k \<and> JWTSigner_sign P alg inp k tr = run_signer P rq tr)"
proof (cases alg)
  case (JStr a)
  consider (rsa) "a \<in> set RSA_algs"
    | (ecdsa) "a \<notin> set RSA_algs" "a \<in> set ECDSA_algs"
    | (eddsa) "a \<notin> set RSA_algs" "a \<notin> set ECDSA_algs" "a = ''EdDSA''"
    | (other) "a \<notin> set RSA_algs" "a \<notin> set ECDSA_algs" "a \<noteq> ''EdDSA''"
    by blast
  then show ?thesis
  proof cases
    case rsa
    then have "JWTSigner_sign P alg inp k tr = createRSASignature P inp k (ALGORITHMS P a) tr"
      by (simp add: JStr JWTSigner_sign_def JWTSigner_createSignature_def)
    with createRSASignature_one_request [of P inp k "ALGORITHMS P a" tr]
    show ?thesis by simp
  next
    case ecdsa
    then have "JWTSigner_sign P alg inp k tr = createECDSASignature P inp k (ALGORITHMS P a) tr"
      by (simp add: JStr JWTSigner_sign_def JWTSigner_createSignature_def)
    with createECDSASignature_one_request [of P inp k "ALGORITHMS P a" tr]
    show ?thesis by simp
  next
    case eddsa
    then have "JWTSigner_sign P alg inp k tr = createEdDSASignature P inp k (ALGORITHMS P a) tr"
      by (simp add: JStr JWTSigner_sign_def JWTSigner_createSignature_def)
    with createEdDSASignature_one_request [of P inp k "ALGORITHMS P a" tr]
    show ?thesis by simp
  next
    case other
    then show ?thesis
      by (simp add: JStr JWTSigner_sign_def JWTSigner_createSignature_def)
  qed
qed (simp_all add: JWTSigner_sign_def JWTSigner_createSignature_def)

lemma JWTSigner_sign_cases:
  assumes "JWTSigner_sign P alg inp k tr = (r, tr')"
  shows "(tr' = tr \<and> (\<exists>e. r = Throw e)) \<or>
         (\<exists>rq. tr' = tr @ [Signer_sign rq] \<and> data rq = inp \<and> key rq = k \<and>
            r = (case signer_sign P rq tr of Throw e \<Rightarrow> Throw e
                 | Return sg \<Rightarrow> Return (toString_base64url sg)))"
  using JWTSigner_sign_one_request [of P alg inp k tr] assms
  by (auto simp: run_signer_result)

text \<open>What a handler returns is the base64url text of what the primitive returned.\<close>

lemma run_signer_output:
  "fst (run_signer P rq tr) = Return out \<Longrightarrow>
   \<exists>sg. signer_sign P rq tr = Return sg \<and> out = toString_base64url sg"
  by (auto simp: run_signer_def split: completion.splits)

lemma createRSASignature_output:
  assumes "fst (createRSASignature P inp k opts tr) = Return out"
  shows "\<exists>rq sg. data rq = inp \<and> key rq = k \<and> signer_sign P rq tr = Return sg \<and>
           out = toString_base64url sg"
proof -
  from createRSASignature_one_request [of P inp k opts tr] assms
  obtain rq where "data rq = inp" "key rq = k" "fst (run_signer P rq tr) = Return out"
    by auto
  with run_signer_output [of P rq tr out] show ?thesis by blast
qed

lemma createECDSASignature_output:
  assumes "fst (createECDSASignature P inp k opts tr) = Return out"
  shows "\<exists>rq sg. data rq = inp \<and> key rq = k \<and> signer_sign P rq tr = Return sg \<and>
           out = toString_base64url sg"
proof -
  from createECDSASignature_one_request [of P inp k opts tr] assms
  obtain rq where "data rq = inp" "key rq = k" "fst (run_signer P rq tr) = Return out"
    by auto
  with run_signer_output [of P rq tr out] show ?thesis by blast
qed

lemma createEdDSASignature_output:
  assumes "fst (createEdDSASignature P inp k opts tr) = Return out"
  shows "\<exists>rq sg. data rq = inp \<and> key rq = k \<and> signer_sign P rq tr = Return sg \<and>
           out = toString_base64url sg"
proof -
  from createEdDSASignature_one_request [of P inp k opts tr] assms
  obtain rq where "data rq = inp" "key rq = k" "fst (run_signer P rq tr) = Return out"
    by auto
  with run_signer_output [of P rq tr out] show ?thesis by blast
qed


lemma JWTSigner_sign_ECDSA:
  assumes "a \<in> set ECDSA_algs" and "ALGORITHMS P a = JObj opts"
  shows "JWTSigner_sign P (JStr a) inp k tr =
     run_signer P \<lparr>algorithm = get_prop opts ''hash'', data = inp, key = k,
                    options = [(''dsaEncoding'', JStr ''ieee-p1363'')]\<rparr> tr"
proof -
  from assms(1) algs_disjoint have "a \<notin> set RSA_algs" by auto
  with assms show ?thesis
    by (simp add: JWTSigner_sign_def JWTSigner_createSignature_def createECDSASignature_object)
qed


lemma JWTSigner_sign_unsupported:
  assumes "alg \<notin> JStr ` set supported_algs"
  shows "JWTSigner_sign P alg inp k tr = (Throw (UnsupportedAlgorithm alg), tr)"
proof (cases alg)
  case (JStr a)
  with assms have "a \<notin> set RSA_algs" "a \<notin> set ECDSA_algs" "a \<noteq> ''EdDSA''"
    by (auto simp: supported_algs_def)
  with JStr show ?thesis
    by (simp add: JWTSigner_sign_def JWTSigner_createSignature_def)
qed (simp_all add: JWTSigner_sign_def JWTSigner_createSignature_def)


section \<open>Properties of \<^verbatim>\<open>Sign\<close>\<close>

lemma current_header_write_header:
  "current_header (write_header k v st) = set_prop (current_header st) k v"
  by (simp add: write_header_def current_header_def)

lemma inst_write_header: "inst (write_header k v st) = inst st"
  by (simp add: write_header_def)

text \<open>A setter writes into the object that is the header at the time, and into no other.\<close>

lemma heap_write_header_other:
  "r \<noteq> protectedHeader (inst st) \<Longrightarrow> heap (write_header k v st) r = heap st r"
  by (simp add: write_header_def)

lemma setter_inst:
  "inst (setB64 b64 st) = inst st"
  "inst (setIssuedAt sec now st) = inst st"
  "inst (setSignedAt sec now st) = inst st"
  "inst (setSigD sigd st) = inst st"
  "inst (setJti jti st) = inst st"
  "inst (setX5u uri st) = inst st"
  "inst (setX5c certs st) = inst st"
  "inst (setX5tS256 P cert st) = inst st"
  "inst (setX5tSo P cert st) = inst st"
  "inst (setCty cty st) = inst st"
  "inst (setKid kid st) = inst st"
  by (simp_all add: setB64_def setIssuedAt_def setSignedAt_def setSigD_def Let_def setJti_def
      setX5u_def setX5c_def setX5tS256_def setX5tSo_def setCty_def setKid_def inst_write_header)


lemma setDisclosureFrame_state:
  "serialized (inst (setDisclosureFrame frame st)) = serialized (inst st)"
  "protectedHeader (inst (setDisclosureFrame frame st)) = protectedHeader (inst st)"
  "heap (setDisclosureFrame frame st) = heap st"
  by (simp_all add: setDisclosureFrame_def)

lemma setProtectedHeader_state:
  "serialized (inst (snd (setProtectedHeader hdr st))) = serialized (inst st)"
  "heap (snd (setProtectedHeader hdr st)) = heap st"
  by (simp_all add: setProtectedHeader_def)

lemma setX5ts_state:
  "inst (snd (setX5ts P certs st)) = inst st"
  "r \<noteq> protectedHeader (inst st) \<Longrightarrow> heap (snd (setX5ts P certs st)) r = heap st r"
  by (simp_all add: setX5ts_def inst_write_header heap_write_header_other)

lemma toJSON_state: "snd (toJSON st) = st"
  by (simp add: toJSON_def split: option.splits)

subsection \<open>\<^verbatim>\<open>sign\<close>\<close>

lemma sign_state_unchanged: "fst (snd (sign P k st tr)) = st"
  by (simp add: sign_def Let_def split: prod.splits completion.splits)

lemma createSignature_rejected_unchanged:
  "createSignature P k kid st tr = (Rejected e, st', tr') \<Longrightarrow> st' = st"
  by (auto simp: createSignature_def Let_def
      split: if_splits option.splits prod.splits completion.splits)

lemma createSignature_fulfilled_serialized:
  "createSignature P k kid st tr = (Fulfilled (), st', tr') \<Longrightarrow>
   \<exists>jws. serialized (inst st') = Some jws"
  by (auto simp: createSignature_def Let_def
      split: if_splits option.splits prod.splits completion.splits)


lemma createSignature_header_ref:
  "protectedHeader (inst (fst (snd (createSignature P k kid st tr)))) = protectedHeader (inst st)"
  by (auto simp: createSignature_def Let_def
      split: if_splits option.splits prod.splits completion.splits)

lemma sign_kid_rejected_unchanged:
  "sign_kid P k kid st tr = (Rejected e, st', tr') \<Longrightarrow> st' = st"
  by (auto simp: sign_kid_def appendSignature_def Let_def
      dest: createSignature_rejected_unchanged split: if_splits)


text \<open>In the version with a key id, a call of \<^verbatim>\<open>sign\<close> that is fulfilled leaves the instance signed.\<close>

lemma sign_kid_populates:
  assumes "sign_kid P k kid st tr = (Fulfilled (), st', tr')"
  shows "\<exists>jws. serialized (inst st') = Some jws \<and> toJSON st' = (Return jws, st')"
proof -
  from assms have "\<exists>jws. serialized (inst st') = Some jws"
    by (auto simp: sign_kid_def appendSignature_def Let_def
        dest: createSignature_fulfilled_serialized split: if_splits)
  then show ?thesis by (auto simp: toJSON_def)
qed

subsection \<open>Sequences of calls\<close>

text \<open>Only a call of \<^verbatim>\<open>sign\<close> that is fulfilled can leave the instance serialized.\<close>

lemma perform_unsigned:
  assumes "serialized (inst st) = None" and "perform P c st tr = (r, st', tr')"
    and "\<not> (is_sign c \<and> r = Async (Fulfilled ()))"
  shows "serialized (inst st') = None"
proof (cases c)
  case (Call_setProtectedHeader hdr)
  with assms(2) have "st' = snd (setProtectedHeader hdr st)" by (auto split: prod.splits)
  with assms(1) show ?thesis by (simp add: setProtectedHeader_state)
next
  case (Call_setDisclosureFrame frame)
  with assms(1,2) show ?thesis by (auto simp: setDisclosureFrame_state)
next
  case (Call_setX5ts certs)
  with assms(2) have "st' = snd (setX5ts P certs st)" by (auto split: prod.splits)
  with assms(1) show ?thesis by (simp add: setX5ts_state)
next
  case Call_toJSON
  with assms(2) have "st' = snd (toJSON st)"
    by (auto split: prod.splits completion.splits)
  with assms(1) show ?thesis by (simp add: toJSON_state)
next
  case (Call_sign k)
  with assms(2) have "st' = fst (snd (sign P k st tr))" by (auto split: prod.splits)
  with assms(1) show ?thesis by (simp add: sign_state_unchanged)
next
  case (Call_sign_kid k kid)
  with assms(2) obtain p where p: "sign_kid P k kid st tr = (p, st', tr')" "r = Async p"
    by (auto split: prod.splits)
  with assms(3) Call_sign_kid obtain e where "p = Rejected e" by (cases p) auto
  with p(1) have "st' = st" by (auto dest: sign_kid_rejected_unchanged)
  with assms(1) show ?thesis by simp
qed (use assms in \<open>auto simp: setter_inst\<close>)

lemma run_flag_kept: "run P cs (st, tr, True) = (st', tr', b) \<Longrightarrow> b"
  by (induction cs arbitrary: st tr) (auto split: prod.splits)

lemma run_unsigned:
  "serialized (inst st) = None \<Longrightarrow> run P cs (st, tr, False) = (st', tr', False) \<Longrightarrow>
   serialized (inst st') = None"
proof (induction cs arbitrary: st tr)
  case Nil
  then show ?case by simp
next
  case (Cons c cs)
  obtain r st1 tr1 where step: "perform P c st tr = (r, st1, tr1)"
    by (cases "perform P c st tr") auto
  show ?case
  proof (cases "is_sign c \<and> r = Async (Fulfilled ())")
    case True
    with Cons.prems(2) step have "run P cs (st1, tr1, True) = (st', tr', False)" by simp
    from run_flag_kept [OF this] show ?thesis by simp
  next
    case False
    with Cons.prems(2) step have rest: "run P cs (st1, tr1, False) = (st', tr', False)" by simp
    from perform_unsigned [OF Cons.prems(1) step False] have "serialized (inst st1) = None" .
    from Cons.IH [OF this rest] show ?thesis .
  qed
qed




subsection \<open>New instances and accepted headers\<close>

lemma current_header_new_Sign: "current_header (new_Sign p H) = []"
  by (simp add: current_header_def new_Sign_def)

lemma inst_new_Sign:
  "inst (new_Sign p H) =
     \<lparr>payload = p, serialized = None, protectedHeader = 0, disclosureFrame = None\<rparr>"
  by (simp add: new_Sign_def)

lemma heap_new_Sign: "r \<noteq> 0 \<Longrightarrow> heap (new_Sign p H) r = H r"
  by (simp add: new_Sign_def)

lemma current_header_setB64:
  "current_header (setB64 b64 st) =
     set_prop (current_header st) ''b64'' (if b64 then JUndefined else JBool False)"
  by (simp add: setB64_def current_header_write_header)

lemma setProtectedHeader_accepts:
  assumes "truthy (get_prop (heap st hdr) ''alg'')"
    and "get_prop (heap st hdr) ''alg'' \<noteq> JStr ''none''"
  shows "setProtectedHeader hdr st = (Return (), st\<lparr>inst := (inst st)\<lparr>protectedHeader := hdr\<rparr>\<rparr>)"
    and "current_header (snd (setProtectedHeader hdr st)) = heap st hdr"
    and "inst (snd (setProtectedHeader hdr st)) = (inst st)\<lparr>protectedHeader := hdr\<rparr>"
  using assms by (simp_all add: setProtectedHeader_def current_header_def)

section \<open>The definitions on concrete inputs\<close>

lemma example_heap_refs:
  "heap (new_Sign p example_heap) 2 = [(''alg'', JStr ''ES256'')]"
  "heap (new_Sign p example_heap) 3 = [(''alg'', JStr ''none'')]"
  "heap (new_Sign p example_heap) 4 = [(''alg'', JStr ''HS256'')]"
  by (simp_all add: heap_new_Sign example_heap_def)

lemma example_instance:
  "fst (setProtectedHeader 2 (new_Sign None example_heap)) = Return ()"
  "current_header (snd (setProtectedHeader 2 (new_Sign None example_heap))) =
     [(''alg'', JStr ''ES256'')]"
  "inst (snd (setProtectedHeader 2 (new_Sign None example_heap))) =
     \<lparr>payload = None, serialized = None, protectedHeader = 2, disclosureFrame = None\<rparr>"
proof -
  have ok: "truthy (get_prop (heap (new_Sign None example_heap) 2) ''alg'')"
      "get_prop (heap (new_Sign None example_heap) 2) ''alg'' \<noteq> JStr ''none''"
    by (simp_all add: example_heap_refs get_prop_def)
  from setProtectedHeader_accepts(1) [OF ok]
  show "fst (setProtectedHeader 2 (new_Sign None example_heap)) = Return ()"
    by simp
  from setProtectedHeader_accepts(2) [OF ok]
  show "current_header (snd (setProtectedHeader 2 (new_Sign None example_heap))) =
     [(''alg'', JStr ''ES256'')]"
    by (simp add: example_heap_refs)
  from setProtectedHeader_accepts(3) [OF ok]
  show "inst (snd (setProtectedHeader 2 (new_Sign None example_heap))) =
     \<lparr>payload = None, serialized = None, protectedHeader = 2, disclosureFrame = None\<rparr>"
    by (simp add: inst_new_Sign)
qed


lemma example_signature: "toString_base64url [0x01, 0x02, 0x03] = ''AQID''"
  by (simp add: toString_base64url_def base64url_alphabet_def)

lemma example_ES256:
  "JWTSigner_sign example_platform (JStr ''ES256'') inp k tr =
     (Return ''AQID'',
      tr @ [Signer_sign \<lparr>algorithm = JStr ''sha256'', data = inp, key = k,
                         options = [(''dsaEncoding'', JStr ''ieee-p1363'')]\<rparr>])"
  by (simp add: JWTSigner_sign_def JWTSigner_createSignature_def RSA_algs_def ECDSA_algs_def
      createECDSASignature_def run_signer_def example_platform_def example_ALGORITHMS_def
      get_prop_def example_signature)

section \<open>The claims\<close>

text \<open>
  C1. After \<^verbatim>\<open>setSigD\<close> with a descriptor whose \<^verbatim>\<open>mId\<close> is
  \<^verbatim>\<open>http://uri.etsi.org/19182/HttpHeaders\<close>, the protected header has \<^verbatim>\<open>b64\<close> set
  to \<^verbatim>\<open>false\<close>, whatever the state was before, also when \<^verbatim>\<open>setB64(true)\<close> was the
  call before; with any other \<^verbatim>\<open>mId\<close> the property \<^verbatim>\<open>b64\<close> is as it was.
\<close>

theorem setSigD_b64:
  "(get_prop sigd ''mId'' = JStr HttpHeaders \<longrightarrow>
      map_of (current_header (setSigD sigd st)) ''b64'' = Some (JBool False) \<and>
      map_of (current_header (setSigD sigd (setB64 True st))) ''b64'' = Some (JBool False)) \<and>
   (get_prop sigd ''mId'' \<noteq> JStr HttpHeaders \<longrightarrow>
      map_of (current_header (setSigD sigd st)) ''b64'' = map_of (current_header st) ''b64'')"
  by (simp add: setSigD_def setB64_def Let_def current_header_write_header map_of_set_prop)

theorem setSigD_b64_witness:
  "map_of (current_header (setSigD (SigD HttpHeaders (''a'', ''b'') ''sha-256'')
       (setB64 True (new_Sign None no_objects)))) ''b64'' = Some (JBool False) \<and>
   map_of (current_header
       (setSigD (SigD ''http://uri.etsi.org/19182/ObjectIdByURIHash'' (''a'', ''b'') ''sha-256'')
       (setB64 True (new_Sign None no_objects)))) ''b64'' =
     map_of (current_header (setB64 True (new_Sign None no_objects))) ''b64''"
  using setSigD_b64 [of "SigD HttpHeaders (''a'', ''b'') ''sha-256''"
      "setB64 True (new_Sign None no_objects)"]
    setSigD_b64 [of "SigD ''http://uri.etsi.org/19182/ObjectIdByURIHash'' (''a'', ''b'') ''sha-256''"
      "setB64 True (new_Sign None no_objects)"]
  by (simp add: SigD_def get_prop_def HttpHeaders_def)

text \<open>
  C2. A call of \<^verbatim>\<open>sign\<close> that is fulfilled is to leave the General JWS stored, so that
  \<^verbatim>\<open>toJSON\<close> returns it. In \<^verbatim>\<open>packages/jades/src/sign.ts\<close> it does not: with the
  header \<^verbatim>\<open>{alg: 'ES256'}\<close> and no payload, \<^verbatim>\<open>sign\<close> is fulfilled and \<^verbatim>\<open>toJSON\<close>
  still throws \<^verbatim>\<open>Not signed yet\<close>. The version with a key id does store it, as
  \<open>sign_kid_populates\<close> shows.
\<close>

theorem sign_leaves_instance_unsigned:
  "fst (sign example_platform (KeyObject ''k'')
         (snd (setProtectedHeader 2 (new_Sign None example_heap))) []) = Fulfilled () \<and>
   fst (toJSON (fst (snd (sign example_platform (KeyObject ''k'')
         (snd (setProtectedHeader 2 (new_Sign None example_heap))) [])))) =
     Throw NotSignedYet"
proof -
  let ?st = "snd (setProtectedHeader 2 (new_Sign None example_heap))"
  have "fst (sign example_platform (KeyObject ''k'') ?st []) = Fulfilled ()"
    by (simp add: sign_def Let_def example_instance get_prop_def example_ES256)
  moreover have "fst (toJSON ?st) = Throw NotSignedYet"
    by (simp add: toJSON_def example_instance)
  ultimately show ?thesis
    by (simp add: sign_state_unchanged)
qed

theorem sign_leaves_instance_unsigned_witness:
  "fst (toJSON (fst (snd (sign example_platform (KeyObject ''k'')
      (snd (setProtectedHeader 2 (new_Sign None example_heap))) [])))) =
     Throw (Error ''Not signed yet'')"
  using sign_leaves_instance_unsigned
  by (simp add: NotSignedYet_def)




text \<open>
  C4, as amended. \<^verbatim>\<open>setB64(true)\<close> assigns \<^verbatim>\<open>undefined\<close> to \<^verbatim>\<open>b64\<close>: the key stays
  in the header with the value \<^verbatim>\<open>undefined\<close>, never \<^verbatim>\<open>true\<close>, reading it yields
  \<^verbatim>\<open>undefined\<close>, and the serialized header is that of the header without \<^verbatim>\<open>b64\<close>.
  \<^verbatim>\<open>setB64(false)\<close> sets the field to \<^verbatim>\<open>false\<close>. Both hold for every header before
  the call.
\<close>

theorem setB64_effect:
  "map_of (current_header (setB64 True st)) ''b64'' = Some JUndefined \<and>
   get_prop (current_header (setB64 True st)) ''b64'' = JUndefined \<and>
   (wf_object (current_header st) \<longrightarrow>
      JSON_stringify (current_header (setB64 True st)) =
      JSON_stringify (without_prop (current_header st) ''b64'')) \<and>
   map_of (current_header (setB64 False st)) ''b64'' = Some (JBool False)"
  by (simp add: setB64_def current_header_write_header map_of_set_prop get_prop_set_prop
      JSON_stringify_set_undefined)

theorem setB64_effect_witness:
  "wf_object (current_header (setB64 False (new_Sign None no_objects))) \<and>
   JSON_stringify (current_header (setB64 True (setB64 False (new_Sign None no_objects)))) =
     ''{}''"
  using setB64_effect [of "setB64 False (new_Sign None no_objects)"]
  by (simp add: current_header_setB64 current_header_new_Sign wf_object_def without_prop_def
      JSON_stringify_def)

text \<open>
  The claim as first stated has the key absent after \<^verbatim>\<open>setB64(true)\<close>. On a new
  instance the header has the property afterwards.
\<close>

theorem setB64_effect_counterexample:
  "has_prop (current_header (setB64 True (new_Sign None no_objects))) ''b64''"
  by (simp add: current_header_setB64 current_header_new_Sign has_prop_def)

text \<open>
  C5, as amended. \<^verbatim>\<open>setProtectedHeader\<close> with \<^verbatim>\<open>alg\<close> equal to \<^verbatim>\<open>none\<close> (or
  missing) throws the algorithm error, synchronously, and leaves the state as it was.
  \<^verbatim>\<open>sign\<close>, in either version, with \<^verbatim>\<open>alg\<close> unset or equal to \<^verbatim>\<open>none\<close> fails with
  the same error, the state as it was and nothing asked of the signing primitive or the
  engine; the method being \<^verbatim>\<open>async\<close>, this failure is the rejection of the promise it
  returns, not a throw of the call.
\<close>

theorem alg_checked_first:
  "(\<not> truthy (get_prop (heap st hdr) ''alg'') \<or> get_prop (heap st hdr) ''alg'' = JStr ''none'' \<longrightarrow>
      setProtectedHeader hdr st = (Throw InvalidAlgorithm, st) \<and>
      perform P (Call_setProtectedHeader hdr) st tr = (Sync (Throw InvalidAlgorithm), st, tr)) \<and>
   (\<not> truthy (get_prop (current_header st) ''alg'') \<or>
    get_prop (current_header st) ''alg'' = JStr ''none'' \<longrightarrow>
      sign P k st tr = (Rejected InvalidAlgorithm, st, tr) \<and>
      sign_kid P k kid st tr = (Rejected InvalidAlgorithm, st, tr) \<and>
      perform P (Call_sign k) st tr = (Async (Rejected InvalidAlgorithm), st, tr) \<and>
      perform P (Call_sign_kid k kid) st tr = (Async (Rejected InvalidAlgorithm), st, tr))"
  by (simp add: setProtectedHeader_def sign_def sign_kid_def Let_def)

theorem alg_checked_first_witness:
  "get_prop (heap (new_Sign None example_heap) 3) ''alg'' = JStr ''none'' \<and>
   setProtectedHeader 3 (new_Sign None example_heap) =
     (Throw InvalidAlgorithm, new_Sign None example_heap) \<and>
   get_prop (current_header (new_Sign None example_heap)) ''alg'' = JUndefined \<and>
   sign example_platform (KeyObject ''k'') (new_Sign None example_heap) [] =
     (Rejected InvalidAlgorithm, new_Sign None example_heap, []) \<and>
   sign_kid example_platform (KeyObject ''k'') ''k1'' (new_Sign None example_heap) [] =
     (Rejected InvalidAlgorithm, new_Sign None example_heap, []) \<and>
   get_prop (current_header \<lparr>inst = \<lparr>payload = None, serialized = None, protectedHeader = 3,
       disclosureFrame = None\<rparr>, heap = example_heap\<rparr>) ''alg'' = JStr ''none'' \<and>
   sign example_platform (KeyObject ''k'')
     \<lparr>inst = \<lparr>payload = None, serialized = None, protectedHeader = 3,
       disclosureFrame = None\<rparr>, heap = example_heap\<rparr> [] =
     (Rejected InvalidAlgorithm,
      \<lparr>inst = \<lparr>payload = None, serialized = None, protectedHeader = 3,
       disclosureFrame = None\<rparr>, heap = example_heap\<rparr>, [])"
  using alg_checked_first [where st = "new_Sign None example_heap" and hdr = 3
      and P = example_platform and tr = "[]" and k = "KeyObject ''k''" and kid = "''k1''"]
    alg_checked_first [where st = "\<lparr>inst = \<lparr>payload = None, serialized = None,
        protectedHeader = 3, disclosureFrame = None\<rparr>, heap = example_heap\<rparr>" and hdr = 3
      and P = example_platform and tr = "[]" and k = "KeyObject ''k''" and kid = "''k1''"]
  by (simp add: example_heap_refs current_header_new_Sign get_prop_def)
    (simp add: current_header_def example_heap_def)

text \<open>
  The claim as first stated has both failures synchronous. On a new instance, whose
  header has no \<^verbatim>\<open>alg\<close>, the call of \<^verbatim>\<open>sign\<close> does not throw: it returns a promise,
  and the promise is rejected.
\<close>

theorem alg_checked_first_counterexample:
  "fst (perform example_platform (Call_sign (KeyObject ''k'')) (new_Sign None no_objects) []) =
     Async (Rejected InvalidAlgorithm) \<and>
   fst (perform example_platform (Call_sign (KeyObject ''k'')) (new_Sign None no_objects) []) \<noteq>
     Sync (Throw InvalidAlgorithm) \<and>
   fst (perform example_platform (Call_sign_kid (KeyObject ''k'') ''k1'')
         (new_Sign None no_objects) []) =
     Async (Rejected InvalidAlgorithm)"
  by (simp add: sign_def sign_kid_def Let_def current_header_new_Sign get_prop_def)

text \<open>
  C6. \<^verbatim>\<open>setX5ts\<close> with fewer than two certificates throws
  \<open>InsufficientCertificates\<close> and leaves the state as it was. With \<open>n \<ge> 2\<close>
  certificates it returns, and \<^verbatim>\<open>x5t#s\<close> is an array of exactly \<open>n\<close> pairs, the
  \<open>i\<close>-th being \<^verbatim>\<open>{digAlg: 'sha-512', digVal}\<close> with the base64url text of the
  SHA-512 digest of the raw bytes of the \<open>i\<close>-th certificate.
\<close>

theorem setX5ts_pairs:
  "(length certs < 2 \<longrightarrow> setX5ts P certs st = (Throw InsufficientCertificates, st)) \<and>
   (2 \<le> length certs \<longrightarrow>
      (\<exists>st' pairs. setX5ts P certs st = (Return (), st') \<and>
         map_of (current_header st') ''x5t#s'' = Some (JArr pairs) \<and>
         length pairs = length certs \<and>
         (\<forall>i < length certs.
            pairs ! i =
              JObj [(''digAlg'', JStr ''sha-512''),
                    (''digVal'',
                     JStr (toString_base64url (digest P ''sha-512'' (raw (certs ! i)))))])))"
  by (simp add: setX5ts_def current_header_write_header map_of_set_prop sha512_pair_def)

theorem setX5ts_pairs_witness:
  "setX5ts example_platform [\<lparr>raw = [1, 2, 3]\<rparr>] (new_Sign None no_objects) =
     (Throw InsufficientCertificates, new_Sign None no_objects) \<and>
   map_of (current_header (snd (setX5ts example_platform
       [\<lparr>raw = [1, 2, 3]\<rparr>, \<lparr>raw = [255, 254]\<rparr>] (new_Sign None no_objects)))) ''x5t#s'' =
     Some (JArr [JObj [(''digAlg'', JStr ''sha-512''), (''digVal'', JStr ''AQID'')],
                 JObj [(''digAlg'', JStr ''sha-512''), (''digVal'', JStr ''__4'')]])"
  using setX5ts_pairs [of "[\<lparr>raw = [1, 2, 3]\<rparr>]" example_platform "new_Sign None no_objects"]
    setX5ts_pairs [of "[\<lparr>raw = [1, 2, 3]\<rparr>, \<lparr>raw = [255, 254]\<rparr>]" example_platform
      "new_Sign None no_objects"]
  by (simp add: setX5ts_def sha512_pair_def current_header_write_header current_header_new_Sign
      example_platform_def toString_base64url_def base64url_alphabet_def)

text \<open>
  C7. With a catalogue of the type the code relies on, \<^verbatim>\<open>JWTSigner.sign\<close> throws
  \<open>UnsupportedAlgorithm\<close> for every identifier that is not a key of the catalogue, and
  for every identifier outside the ten of the \<^verbatim>\<open>switch\<close>. \<^verbatim>\<open>RS256\<close>, \<^verbatim>\<open>RS384\<close>,
  \<^verbatim>\<open>RS512\<close>, \<^verbatim>\<open>PS256\<close>, \<^verbatim>\<open>PS384\<close>, \<^verbatim>\<open>PS512\<close> go to the RSA handler,
  \<^verbatim>\<open>ES256\<close>, \<^verbatim>\<open>ES384\<close>, \<^verbatim>\<open>ES512\<close> to the ECDSA handler and \<^verbatim>\<open>EdDSA\<close> to the EdDSA
  handler. The three families are disjoint, and each call hands the primitive exactly
  one request, with the options of its own handler.
\<close>

theorem JWTSigner_sign_dispatch:
  assumes "catalog_typed P"
  shows "(ALGORITHMS P a = JUndefined \<longrightarrow>
            JWTSigner_sign P (JStr a) inp k tr = (Throw (UnsupportedAlgorithm (JStr a)), tr)) \<and>
         (a \<notin> set RSA_algs \<and> a \<notin> set ECDSA_algs \<and> a \<noteq> ''EdDSA'' \<longrightarrow>
            JWTSigner_sign P (JStr a) inp k tr = (Throw (UnsupportedAlgorithm (JStr a)), tr)) \<and>
         (a \<in> set RSA_algs \<longrightarrow>
            JWTSigner_sign P (JStr a) inp k tr =
              createRSASignature P inp k (ALGORITHMS P a) tr \<and>
            (\<exists>rq. snd (JWTSigner_sign P (JStr a) inp k tr) = tr @ [Signer_sign rq] \<and>
                  map fst (options rq) = [''padding''])) \<and>
         (a \<in> set ECDSA_algs \<longrightarrow>
            JWTSigner_sign P (JStr a) inp k tr =
              createECDSASignature P inp k (ALGORITHMS P a) tr \<and>
            (\<exists>rq. snd (JWTSigner_sign P (JStr a) inp k tr) = tr @ [Signer_sign rq] \<and>
                  map fst (options rq) = [''dsaEncoding''])) \<and>
         (a = ''EdDSA'' \<longrightarrow>
            JWTSigner_sign P (JStr a) inp k tr =
              createEdDSASignature P inp k (ALGORITHMS P a) tr \<and>
            (\<exists>rq. snd (JWTSigner_sign P (JStr a) inp k tr) = tr @ [Signer_sign rq] \<and>
                  map fst (options rq) = [])) \<and>
         set RSA_algs \<inter> set ECDSA_algs = {} \<and>
         ''EdDSA'' \<notin> set RSA_algs \<and> ''EdDSA'' \<notin> set ECDSA_algs"
proof -
  have unsupported: "JWTSigner_sign P (JStr a) inp k tr = (Throw (UnsupportedAlgorithm (JStr a)), tr)"
    if "a \<notin> set RSA_algs" "a \<notin> set ECDSA_algs" "a \<noteq> ''EdDSA''"
    using that by (simp add: JWTSigner_sign_def JWTSigner_createSignature_def)
  have missing: "JWTSigner_sign P (JStr a) inp k tr = (Throw (UnsupportedAlgorithm (JStr a)), tr)"
    if "ALGORITHMS P a = JUndefined"
    using catalog_typed_defined [OF assms that] by (rule unsupported)
  have rsa: "JWTSigner_sign P (JStr a) inp k tr = createRSASignature P inp k (ALGORITHMS P a) tr"
    if "a \<in> set RSA_algs"
    using that by (simp add: JWTSigner_sign_def JWTSigner_createSignature_def)
  have rsa_rq: "\<exists>rq. snd (JWTSigner_sign P (JStr a) inp k tr) = tr @ [Signer_sign rq] \<and>
                  map fst (options rq) = [''padding'']"
    if "a \<in> set RSA_algs"
  proof -
    from catalog_typed_RSA [OF assms that] obtain opts where "ALGORITHMS P a = JObj opts" ..
    then show ?thesis
      by (simp add: rsa [OF that] createRSASignature_object run_signer_result)
  qed
  have ecdsa: "JWTSigner_sign P (JStr a) inp k tr = createECDSASignature P inp k (ALGORITHMS P a) tr"
    if "a \<in> set ECDSA_algs"
    using that algs_disjoint by (auto simp: JWTSigner_sign_def JWTSigner_createSignature_def)
  have ecdsa_rq: "\<exists>rq. snd (JWTSigner_sign P (JStr a) inp k tr) = tr @ [Signer_sign rq] \<and>
                  map fst (options rq) = [''dsaEncoding'']"
    if "a \<in> set ECDSA_algs"
  proof -
    from catalog_typed_ECDSA [OF assms that] obtain opts where "ALGORITHMS P a = JObj opts" ..
    then show ?thesis
      by (simp add: ecdsa [OF that] createECDSASignature_object run_signer_result)
  qed
  have eddsa: "JWTSigner_sign P (JStr ''EdDSA'') inp k tr =
      createEdDSASignature P inp k (ALGORITHMS P ''EdDSA'') tr"
    using algs_disjoint by (simp add: JWTSigner_sign_def JWTSigner_createSignature_def)
  have eddsa_rq: "\<exists>rq. snd (JWTSigner_sign P (JStr ''EdDSA'') inp k tr) = tr @ [Signer_sign rq] \<and>
                  map fst (options rq) = []"
  proof -
    from catalog_typed_EdDSA [OF assms] obtain opts cs
      where "ALGORITHMS P ''EdDSA'' = JObj opts" "get_prop opts ''curves'' = JArr cs" by blast
    then show ?thesis
      by (simp add: eddsa createEdDSASignature_object run_signer_result)
  qed
  from unsupported missing rsa rsa_rq ecdsa ecdsa_rq eddsa eddsa_rq algs_disjoint
  show ?thesis by blast
qed

theorem JWTSigner_sign_dispatch_witness:
  "catalog_typed example_platform \<and>
   ALGORITHMS example_platform ''HS256'' = JUndefined \<and>
   JWTSigner_sign example_platform (JStr ''HS256'') ''in'' (KeyObject ''k'') [] =
     (Throw (Error ''Unsupported algorithm: HS256''), []) \<and>
   ''PS384'' \<in> set RSA_algs \<and>
   JWTSigner_sign example_platform (JStr ''PS384'') ''in'' (KeyObject ''k'') [] =
     createRSASignature example_platform ''in'' (KeyObject ''k'')
       (JObj [(''hash'', JStr ''sha384''), (''padding'', JNum 6)]) [] \<and>
   ''ES512'' \<in> set ECDSA_algs \<and>
   JWTSigner_sign example_platform (JStr ''ES512'') ''in'' (KeyObject ''k'') [] =
     createECDSASignature example_platform ''in'' (KeyObject ''k'')
       (JObj [(''hash'', JStr ''sha512''), (''namedCurve'', JStr ''P-521'')]) [] \<and>
   JWTSigner_sign example_platform (JStr ''EdDSA'') ''in'' (KeyObject ''k'') [] =
     createEdDSASignature example_platform ''in'' (KeyObject ''k'')
       (JObj [(''curves'', JArr [JStr ''ed25519'', JStr ''ed448''])]) []"
proof -
  have cat: "catalog_typed example_platform"
    by (rule catalog_typed_example)
  have entries:
    "ALGORITHMS example_platform ''HS256'' = JUndefined"
    "ALGORITHMS example_platform ''PS384'' = JObj [(''hash'', JStr ''sha384''), (''padding'', JNum 6)]"
    "ALGORITHMS example_platform ''ES512'' =
       JObj [(''hash'', JStr ''sha512''), (''namedCurve'', JStr ''P-521'')]"
    "ALGORITHMS example_platform ''EdDSA'' = JObj [(''curves'', JArr [JStr ''ed25519'', JStr ''ed448''])]"
    by (simp_all add: example_platform_def example_ALGORITHMS_def)
  have members: "''PS384'' \<in> set RSA_algs" "''ES512'' \<in> set ECDSA_algs"
    by (simp_all add: RSA_algs_def ECDSA_algs_def)
  from JWTSigner_sign_dispatch [OF cat, of "''HS256''" "''in''" "KeyObject ''k''" "[]"] entries(1)
  have 1: "JWTSigner_sign example_platform (JStr ''HS256'') ''in'' (KeyObject ''k'') [] =
     (Throw (Error ''Unsupported algorithm: HS256''), [])"
    by (simp add: UnsupportedAlgorithm_def)
  from JWTSigner_sign_dispatch [OF cat, of "''PS384''" "''in''" "KeyObject ''k''" "[]"] members(1)
  have 2: "JWTSigner_sign example_platform (JStr ''PS384'') ''in'' (KeyObject ''k'') [] =
     createRSASignature example_platform ''in'' (KeyObject ''k'')
       (JObj [(''hash'', JStr ''sha384''), (''padding'', JNum 6)]) []"
    by (simp add: entries)
  from JWTSigner_sign_dispatch [OF cat, of "''ES512''" "''in''" "KeyObject ''k''" "[]"] members(2)
  have 3: "JWTSigner_sign example_platform (JStr ''ES512'') ''in'' (KeyObject ''k'') [] =
     createECDSASignature example_platform ''in'' (KeyObject ''k'')
       (JObj [(''hash'', JStr ''sha512''), (''namedCurve'', JStr ''P-521'')]) []"
    by (simp add: entries)
  from JWTSigner_sign_dispatch [OF cat, of "''EdDSA''" "''in''" "KeyObject ''k''" "[]"]
  have 4: "JWTSigner_sign example_platform (JStr ''EdDSA'') ''in'' (KeyObject ''k'') [] =
     createEdDSASignature example_platform ''in'' (KeyObject ''k'')
       (JObj [(''curves'', JArr [JStr ''ed25519'', JStr ''ed448''])]) []"
    by (simp add: entries)
  from cat entries(1) 1 members 2 3 4 show ?thesis by (intro conjI)
qed

text \<open>
  C8. For \<^verbatim>\<open>ES256\<close>, \<^verbatim>\<open>ES384\<close> and \<^verbatim>\<open>ES512\<close> the request handed to the primitive
  carries \<^verbatim>\<open>dsaEncoding: 'ieee-p1363'\<close>, and the result is the base64url text of the
  signature the primitive returns. Each of the three handlers, given its entry of the
  catalogue, hands the primitive one request and returns the base64url text of the bytes
  the primitive returns, and throws what the primitive throws. That text has length
  \<open>\<lceil>4n/3\<rceil>\<close> for \<open>n\<close> bytes and no \<^verbatim>\<open>=\<close> in it.
\<close>

theorem ECDSA_ieee_p1363:
  "(a \<in> set ECDSA_algs \<and> ALGORITHMS P a = JObj opts \<longrightarrow>
      JWTSigner_sign P (JStr a) inp k tr =
        (case signer_sign P
                \<lparr>algorithm = get_prop opts ''hash'', data = inp, key = k,
                 options = [(''dsaEncoding'', JStr ''ieee-p1363'')]\<rparr> tr of
           Throw e \<Rightarrow> Throw e
         | Return sg \<Rightarrow> Return (toString_base64url sg),
         tr @ [Signer_sign
                \<lparr>algorithm = get_prop opts ''hash'', data = inp, key = k,
                 options = [(''dsaEncoding'', JStr ''ieee-p1363'')]\<rparr>])) \<and>
   createECDSASignature P inp k (JObj opts) tr =
     (case signer_sign P
             \<lparr>algorithm = get_prop opts ''hash'', data = inp, key = k,
              options = [(''dsaEncoding'', JStr ''ieee-p1363'')]\<rparr> tr of
        Throw e \<Rightarrow> Throw e
      | Return sg \<Rightarrow> Return (toString_base64url sg),
      tr @ [Signer_sign
             \<lparr>algorithm = get_prop opts ''hash'', data = inp, key = k,
              options = [(''dsaEncoding'', JStr ''ieee-p1363'')]\<rparr>]) \<and>
   createRSASignature P inp k (JObj opts) tr =
     (case signer_sign P
             \<lparr>algorithm = get_prop opts ''hash'', data = inp, key = k,
              options = [(''padding'', get_prop opts ''padding'')]\<rparr> tr of
        Throw e \<Rightarrow> Throw e
      | Return sg \<Rightarrow> Return (toString_base64url sg),
      tr @ [Signer_sign
             \<lparr>algorithm = get_prop opts ''hash'', data = inp, key = k,
              options = [(''padding'', get_prop opts ''padding'')]\<rparr>]) \<and>
   (get_prop opts ''curves'' = JArr cs \<longrightarrow>
      createEdDSASignature P inp k (JObj opts) tr =
        (case signer_sign P
                \<lparr>algorithm = (case cs of [] \<Rightarrow> JUndefined | c # _ \<Rightarrow> c), data = inp,
                 key = k, options = []\<rparr> tr of
           Throw e \<Rightarrow> Throw e
         | Return sg \<Rightarrow> Return (toString_base64url sg),
         tr @ [Signer_sign
                \<lparr>algorithm = (case cs of [] \<Rightarrow> JUndefined | c # _ \<Rightarrow> c), data = inp,
                 key = k, options = []\<rparr>])) \<and>
   CHR ''='' \<notin> set (toString_base64url bytes) \<and>
   length (toString_base64url bytes) = (4 * length bytes + 2) div 3 \<and>
   (fst (createECDSASignature P inp k v tr) = Return out \<or>
    fst (createRSASignature P inp k v tr) = Return out \<or>
    fst (createEdDSASignature P inp k v tr) = Return out \<longrightarrow>
      (\<exists>rq sg. data rq = inp \<and> key rq = k \<and> signer_sign P rq tr = Return sg \<and>
               out = toString_base64url sg \<and>
               length out = (4 * length sg + 2) div 3) \<and>
      CHR ''='' \<notin> set out)"
proof -
  have ecdsa: "JWTSigner_sign P (JStr a) inp k tr =
        (case signer_sign P
                \<lparr>algorithm = get_prop opts ''hash'', data = inp, key = k,
                 options = [(''dsaEncoding'', JStr ''ieee-p1363'')]\<rparr> tr of
           Throw e \<Rightarrow> Throw e
         | Return sg \<Rightarrow> Return (toString_base64url sg),
         tr @ [Signer_sign
                \<lparr>algorithm = get_prop opts ''hash'', data = inp, key = k,
                 options = [(''dsaEncoding'', JStr ''ieee-p1363'')]\<rparr>])"
    if "a \<in> set ECDSA_algs" "ALGORITHMS P a = JObj opts"
    using JWTSigner_sign_ECDSA [OF that, of inp k tr] by (simp add: run_signer_result)
  have eddsa: "createEdDSASignature P inp k (JObj opts) tr =
        (case signer_sign P
                \<lparr>algorithm = (case cs of [] \<Rightarrow> JUndefined | c # _ \<Rightarrow> c), data = inp,
                 key = k, options = []\<rparr> tr of
           Throw e \<Rightarrow> Throw e
         | Return sg \<Rightarrow> Return (toString_base64url sg),
         tr @ [Signer_sign
                \<lparr>algorithm = (case cs of [] \<Rightarrow> JUndefined | c # _ \<Rightarrow> c), data = inp,
                 key = k, options = []\<rparr>])"
    if "get_prop opts ''curves'' = JArr cs"
    using createEdDSASignature_object [OF that, of P inp k tr] by (simp add: run_signer_result)
  have out: "(\<exists>rq sg. data rq = inp \<and> key rq = k \<and> signer_sign P rq tr = Return sg \<and>
               out = toString_base64url sg \<and>
               length out = (4 * length sg + 2) div 3) \<and>
             CHR ''='' \<notin> set out"
    if "fst (createECDSASignature P inp k v tr) = Return out \<or>
        fst (createRSASignature P inp k v tr) = Return out \<or>
        fst (createEdDSASignature P inp k v tr) = Return out"
  proof -
    from that obtain rq sg
      where "data rq = inp" "key rq = k" "signer_sign P rq tr = Return sg"
        "out = toString_base64url sg"
      using createECDSASignature_output [of P inp k v tr out]
        createRSASignature_output [of P inp k v tr out]
        createEdDSASignature_output [of P inp k v tr out]
      by blast
    then show ?thesis
      using toString_base64url_length [of sg] toString_base64url_no_pad [of sg] by blast
  qed
  from ecdsa eddsa out show ?thesis
    by (simp only: createECDSASignature_object createRSASignature_object run_signer_result
        toString_base64url_no_pad toString_base64url_length) blast
qed

theorem ECDSA_ieee_p1363_witness:
  "''ES384'' \<in> set ECDSA_algs \<and>
   ALGORITHMS example_platform ''ES384'' =
     JObj [(''hash'', JStr ''sha384''), (''namedCurve'', JStr ''P-384'')] \<and>
   JWTSigner_sign example_platform (JStr ''ES384'') ''in'' (KeyObject ''k'') [] =
     (Return ''AQID'',
      [Signer_sign \<lparr>algorithm = JStr ''sha384'', data = ''in'', key = KeyObject ''k'',
                    options = [(''dsaEncoding'', JStr ''ieee-p1363'')]\<rparr>]) \<and>
   createRSASignature example_platform ''in'' (KeyObject ''k'')
       (JObj [(''hash'', JStr ''sha384''), (''padding'', JNum 6)]) [] =
     (Return ''AQID'',
      [Signer_sign \<lparr>algorithm = JStr ''sha384'', data = ''in'', key = KeyObject ''k'',
                    options = [(''padding'', JNum 6)]\<rparr>]) \<and>
   get_prop [(''curves'', JArr [JStr ''ed25519'', JStr ''ed448''])] ''curves'' =
     JArr [JStr ''ed25519'', JStr ''ed448''] \<and>
   createEdDSASignature example_platform ''in'' (KeyObject ''k'')
       (JObj [(''curves'', JArr [JStr ''ed25519'', JStr ''ed448''])]) [] =
     (Return ''AQID'',
      [Signer_sign \<lparr>algorithm = JStr ''ed25519'', data = ''in'', key = KeyObject ''k'',
                    options = []\<rparr>]) \<and>
   CHR ''='' \<notin> set ''AQID''"
proof -
  have a: "''ES384'' \<in> set ECDSA_algs"
    by (simp add: ECDSA_algs_def)
  have b: "ALGORITHMS example_platform ''ES384'' =
     JObj [(''hash'', JStr ''sha384''), (''namedCurve'', JStr ''P-384'')]"
    by (simp add: example_platform_def example_ALGORITHMS_def)
  have c: "get_prop [(''curves'', JArr [JStr ''ed25519'', JStr ''ed448''])] ''curves'' =
     JArr [JStr ''ed25519'', JStr ''ed448'']"
    by (simp add: get_prop_def)
  have sg: "signer_sign example_platform rq tr = Return [0x01, 0x02, 0x03]" for rq tr
    by (simp add: example_platform_def)
  note ec = ECDSA_ieee_p1363 [where a = "''ES384''" and P = example_platform
      and opts = "[(''hash'', JStr ''sha384''), (''namedCurve'', JStr ''P-384'')]"
      and inp = "''in''" and k = "KeyObject ''k''" and tr = "[]" and bytes = "[0x01, 0x02, 0x03]"]
  note rsa = ECDSA_ieee_p1363 [where P = example_platform
      and opts = "[(''hash'', JStr ''sha384''), (''padding'', JNum 6)]"
      and inp = "''in''" and k = "KeyObject ''k''" and tr = "[]"]
  note ed = ECDSA_ieee_p1363 [where P = example_platform
      and opts = "[(''curves'', JArr [JStr ''ed25519'', JStr ''ed448''])]"
      and cs = "[JStr ''ed25519'', JStr ''ed448'']"
      and inp = "''in''" and k = "KeyObject ''k''" and tr = "[]"]
  from mp [OF conjunct1 [OF ec] conjI [OF a b]]
  have 1: "JWTSigner_sign example_platform (JStr ''ES384'') ''in'' (KeyObject ''k'') [] =
     (Return ''AQID'',
      [Signer_sign \<lparr>algorithm = JStr ''sha384'', data = ''in'', key = KeyObject ''k'',
                    options = [(''dsaEncoding'', JStr ''ieee-p1363'')]\<rparr>])"
    by (simp add: sg example_signature get_prop_def)
  from rsa have 2: "createRSASignature example_platform ''in'' (KeyObject ''k'')
       (JObj [(''hash'', JStr ''sha384''), (''padding'', JNum 6)]) [] =
     (Return ''AQID'',
      [Signer_sign \<lparr>algorithm = JStr ''sha384'', data = ''in'', key = KeyObject ''k'',
                    options = [(''padding'', JNum 6)]\<rparr>])"
    by (simp add: sg example_signature get_prop_def)
  from ed c have 3: "createEdDSASignature example_platform ''in'' (KeyObject ''k'')
       (JObj [(''curves'', JArr [JStr ''ed25519'', JStr ''ed448''])]) [] =
     (Return ''AQID'',
      [Signer_sign \<lparr>algorithm = JStr ''ed25519'', data = ''in'', key = KeyObject ''k'',
                    options = []\<rparr>])"
    by (simp add: sg example_signature)
  from ec have 4: "CHR ''='' \<notin> set ''AQID''"
    by (simp add: example_signature)
  from a b 1 2 c 3 4 show ?thesis by (intro conjI)
qed

text \<open>
  C9. After any sequence of calls on a new instance in which no call of \<^verbatim>\<open>sign\<close> has
  completed successfully, \<^verbatim>\<open>toJSON\<close> throws \<open>NotSignedYet\<close> and leaves the state
  as it was.
\<close>

theorem toJSON_before_sign:
  assumes "run P cs (new_Sign p H, [], False) = (st, tr, False)"
  shows "toJSON st = (Throw NotSignedYet, st)"
proof -
  have "serialized (inst (new_Sign p H)) = None" by (simp add: new_Sign_def)
  from run_unsigned [OF this assms] show ?thesis by (simp add: toJSON_def)
qed

theorem toJSON_before_sign_witness:
  "run example_platform
     [Call_setProtectedHeader 4, Call_setB64 False,
      Call_setX5ts [\<lparr>raw = [1, 2, 3]\<rparr>], Call_sign_kid (KeyObject ''k'') ''k1'', Call_toJSON]
     (new_Sign None example_heap, [], False) =
     (setB64 False (snd (setProtectedHeader 4 (new_Sign None example_heap))), [], False) \<and>
   current_header (setB64 False (snd (setProtectedHeader 4 (new_Sign None example_heap)))) =
     [(''alg'', JStr ''HS256''), (''b64'', JBool False)] \<and>
   toJSON (setB64 False (snd (setProtectedHeader 4 (new_Sign None example_heap)))) =
     (Throw NotSignedYet,
      setB64 False (snd (setProtectedHeader 4 (new_Sign None example_heap))))"
proof -
  let ?st0 = "new_Sign None example_heap"
  let ?st1 = "snd (setProtectedHeader 4 ?st0)"
  let ?st2 = "setB64 False ?st1"
  have ok: "truthy (get_prop (heap ?st0 4) ''alg'')" "get_prop (heap ?st0 4) ''alg'' \<noteq> JStr ''none''"
    by (simp_all add: example_heap_refs get_prop_def)
  have c1: "perform example_platform (Call_setProtectedHeader 4) ?st0 [] =
      (Sync (Return ()), ?st1, [])"
    using setProtectedHeader_accepts(1) [OF ok] by simp
  have c2: "perform example_platform (Call_setB64 False) ?st1 [] = (Sync (Return ()), ?st2, [])"
    by simp
  have h2: "current_header ?st2 = [(''alg'', JStr ''HS256''), (''b64'', JBool False)]"
    using setProtectedHeader_accepts(2) [OF ok]
    by (simp add: current_header_setB64 example_heap_refs)
  have i2: "inst ?st2 =
      \<lparr>payload = None, serialized = None, protectedHeader = 4, disclosureFrame = None\<rparr>"
    using setProtectedHeader_accepts(3) [OF ok] by (simp add: setter_inst inst_new_Sign)
  have c3: "perform example_platform (Call_setX5ts [\<lparr>raw = [1, 2, 3]\<rparr>]) ?st2 [] =
      (Sync (Throw InsufficientCertificates), ?st2, [])"
    by (simp add: setX5ts_def)
  have unsupported: "JStr ''HS256'' \<notin> JStr ` set supported_algs"
    by (simp add: supported_algs_def RSA_algs_def ECDSA_algs_def image_iff)
  have c4: "perform example_platform (Call_sign_kid (KeyObject ''k'') ''k1'') ?st2 [] =
      (Async (Rejected (UnsupportedAlgorithm (JStr ''HS256''))), ?st2, [])"
    by (simp add: sign_kid_def createSignature_def Let_def h2 i2 get_prop_def
        JWTSigner_sign_unsupported [OF unsupported])
  have c5: "perform example_platform Call_toJSON ?st2 [] = (Sync (Throw NotSignedYet), ?st2, [])"
    by (simp add: toJSON_def i2)
  have r: "run example_platform
     [Call_setProtectedHeader 4, Call_setB64 False,
      Call_setX5ts [\<lparr>raw = [1, 2, 3]\<rparr>], Call_sign_kid (KeyObject ''k'') ''k1'', Call_toJSON]
     (?st0, [], False) = (?st2, [], False)"
    unfolding run.simps c1 c2 c3 c4 c5 prod.case by simp
  from toJSON_before_sign [OF r] r h2 show ?thesis by simp
qed




end
